theory Spec2Isabelle
  imports Main "HOL-Library.Sublist"
begin

section \<open>JavaScript strings\<close>

text \<open>
  A JavaScript string is a sequence of code units. This development covers the code
  units below 256, one \<^typ>\<open>char\<close> each, so a trace is a \<^typ>\<open>string\<close>.
\<close>

definition isLineTerminator :: "char \<Rightarrow> bool" where
  "isLineTerminator c \<longleftrightarrow> c = CHR 0x0A \<or> c = CHR 0x0D"

definition isWhiteSpace :: "char \<Rightarrow> bool" where
  "isWhiteSpace c \<longleftrightarrow>
     c = CHR 0x09 \<or> c = CHR 0x0B \<or> c = CHR 0x0C \<or> c = CHR 0x20 \<or> c = CHR 0xA0 \<or> isLineTerminator c"

text \<open>\<^verbatim>\<open>s.trim()\<close>: white space and line terminators go from both ends.\<close>

definition trim :: "string \<Rightarrow> string" where
  "trim s = rev (dropWhile isWhiteSpace (rev (dropWhile isWhiteSpace s)))"

text \<open>\<^verbatim>\<open>s.split('\n')\<close>: always at least one piece.\<close>

fun split_nl :: "string \<Rightarrow> string list" where
  "split_nl [] = [[]]"
| "split_nl (c # cs) =
     (if c = CHR 0x0A then [] # split_nl cs
      else case split_nl cs of [] \<Rightarrow> [[c]] | l # ls \<Rightarrow> (c # l) # ls)"

text \<open>\<^verbatim>\<open>xs.join(sep)\<close> on an array of strings.\<close>

fun join :: "string \<Rightarrow> string list \<Rightarrow> string" where
  "join sep [] = []"
| "join sep [x] = x"
| "join sep (x # y # ys) = x @ sep @ join sep (y # ys)"

text \<open>\<^verbatim>\<open>s.startsWith(p)\<close> is \<^term>\<open>prefix p s\<close>; \<^verbatim>\<open>s.includes(p)\<close> looks at every position.\<close>

abbreviation startsWith :: "string \<Rightarrow> string \<Rightarrow> bool" where
  "startsWith s p \<equiv> prefix p s"

fun str_includes :: "string \<Rightarrow> string \<Rightarrow> bool" where
  "str_includes [] p \<longleftrightarrow> p = []"
| "str_includes (c # cs) p \<longleftrightarrow> prefix p (c # cs) \<or> str_includes cs p"

text \<open>
  \<^verbatim>\<open>s.replace(p, r)\<close> with a string pattern replaces the first occurrence only
  (the replacement strings of the source hold no \<^verbatim>\<open>$\<close>).
\<close>

fun replaceFirst :: "string \<Rightarrow> string \<Rightarrow> string \<Rightarrow> string" where
  "replaceFirst p r [] = (if p = [] then r else [])"
| "replaceFirst p r (c # cs) =
     (if prefix p (c # cs) then r @ drop (length p) (c # cs)
      else c # replaceFirst p r cs)"

text \<open>\<^verbatim>\<open>s.replace(/"/g, '\\"')\<close>: a backslash goes before every double quote.\<close>

definition escapeQuotes :: "string \<Rightarrow> string" where
  "escapeQuotes s = concat (map (\<lambda>c. if c = CHR 0x22 then [CHR 0x5C, CHR 0x22] else [c]) s)"

text \<open>\<^verbatim>\<open>s.replace(/[\[\]]/g, '')\<close>: every square bracket goes.\<close>

definition stripBrackets :: "string \<Rightarrow> string" where
  "stripBrackets s = filter (\<lambda>c. c \<noteq> CHR ''['' \<and> c \<noteq> CHR '']'') s"

section \<open>Regular expressions of the converters\<close>

text \<open>
  The three patterns of the source are built from literals and lazy runs of \<^verbatim>\<open>.\<close>;
  a backtracking matcher is written in continuation style: each piece gets the rest of
  the pattern as the continuation \<open>k\<close>, and a lazy run tries the continuation before it
  takes one more character. \<^verbatim>\<open>.\<close> takes any character but a line terminator.
\<close>

definition rx_lit :: "string \<Rightarrow> (string \<Rightarrow> 'a option) \<Rightarrow> string \<Rightarrow> 'a option" where
  "rx_lit l k s = (if prefix l s then k (drop (length l) s) else None)"

text \<open>
  \<open>rx_lazy n k acc s\<close>: \<^verbatim>\<open>.*?\<close> for \<open>n = 0\<close> and \<^verbatim>\<open>.+?\<close> for \<open>n = 1\<close>; \<open>acc\<close> is
  what the run has taken so far, and the continuation gets it (the capture group).
\<close>

fun rx_lazy :: "nat \<Rightarrow> (string \<Rightarrow> string \<Rightarrow> 'a option) \<Rightarrow> string \<Rightarrow> string \<Rightarrow> 'a option" where
  "rx_lazy n k acc [] = (if n = 0 then k acc [] else None)"
| "rx_lazy n k acc (c # cs) =
     (case (if n = 0 then k acc (c # cs) else None) of
        Some r \<Rightarrow> Some r
      | None \<Rightarrow> if isLineTerminator c then None else rx_lazy (n - 1) k (acc @ [c]) cs)"

text \<open>An unanchored pattern is tried at every position, leftmost first.\<close>

fun rx_search :: "(string \<Rightarrow> 'a option) \<Rightarrow> string \<Rightarrow> 'a option" where
  "rx_search m [] = m []"
| "rx_search m (c # cs) = (case m (c # cs) of Some r \<Rightarrow> Some r | None \<Rightarrow> rx_search m cs)"

text \<open>\<^verbatim>\<open>/\[\[.*?\] -> (.+?)\]/\<close>, group 1 of the match.\<close>

definition rx_cleanLocator :: "string \<Rightarrow> string option" where
  "rx_cleanLocator =
     rx_search (rx_lit ''[['' (rx_lazy 0 (\<lambda>_. rx_lit ''] -> ''
       (rx_lazy 1 (\<lambda>cap. rx_lit '']'' (\<lambda>_. Some cap)) [])) []))"

text \<open>\<^verbatim>\<open>/^(.+?) option/\<close>, group 1 of the match.\<close>

definition rx_parentOption :: "string \<Rightarrow> string option" where
  "rx_parentOption = rx_lazy 1 (\<lambda>cap. rx_lit '' option'' (\<lambda>_. Some cap)) []"

text \<open>\<^verbatim>\<open>/:has-text\("(.+?)"\)/\<close>, group 1 of the match.\<close>

definition rx_hasText :: "string \<Rightarrow> string option" where
  \<open>rx_hasText =
     rx_search (rx_lit '':has-text("'' (rx_lazy 1 (\<lambda>cap. rx_lit ''")'' (\<lambda>_. Some cap)) []))\<close>

section \<open>JavaScript values\<close>

text \<open>
  What \<^verbatim>\<open>JSON.parse\<close> returns, and \<^verbatim>\<open>undefined\<close> for a property that is not
  there. A number is carried as its rendering by \<^verbatim>\<open>Number.prototype.toString\<close>: the
  converters only convert numbers to strings and test them for truth.
\<close>

datatype jsval =
    JUndefined
  | JNull
  | JBool bool
  | JNum string
  | JStr string
  | JArr "jsval list"
  | JObj "(string \<times> jsval) list"

datatype error = TypeError | ReadError

fun truthy :: "jsval \<Rightarrow> bool" where
  "truthy JUndefined = False"
| "truthy JNull = False"
| "truthy (JBool b) = b"
| "truthy (JNum r) = (r \<noteq> ''0'' \<and> r \<noteq> ''NaN'')"
| "truthy (JStr s) = (s \<noteq> [])"
| "truthy (JArr xs) = True"
| "truthy (JObj kvs) = True"

text \<open>Own property of a decoded object: the last member with the name wins.\<close>

definition ownProp :: "(string \<times> jsval) list \<Rightarrow> string \<Rightarrow> jsval option" where
  "ownProp kvs name = map_of (rev kvs) name"

text \<open>
  \<^verbatim>\<open>v.name\<close> for the names the converters read (\<^verbatim>\<open>evt\<close>, \<^verbatim>\<open>kind\<close>, \<^verbatim>\<open>target\<close>,
  \<^verbatim>\<open>durationMs\<close>), which no built-in prototype defines: reading from \<^verbatim>\<open>null\<close>
  throws, an object gives its own property, everything else gives \<^verbatim>\<open>undefined\<close>.
\<close>

fun getProp :: "jsval \<Rightarrow> string \<Rightarrow> error + jsval" where
  "getProp JUndefined name = Inl TypeError"
| "getProp JNull name = Inl TypeError"
| "getProp (JObj kvs) name = Inr (case ownProp kvs name of None \<Rightarrow> JUndefined | Some v \<Rightarrow> v)"
| "getProp v name = Inr JUndefined"

text \<open>A thrown error ends the computation; otherwise the value goes on.\<close>

definition bindE :: "error + 'a \<Rightarrow> ('a \<Rightarrow> error + 'b) \<Rightarrow> error + 'b" where
  "bindE m f = (case m of Inl e \<Rightarrow> Inl e | Inr x \<Rightarrow> f x)"

text \<open>All results or the first error, in order.\<close>

fun sequence :: "(error + 'a) list \<Rightarrow> error + 'a list" where
  "sequence [] = Inr []"
| "sequence (Inl e # xs) = Inl e"
| "sequence (Inr v # xs) = (case sequence xs of Inl e \<Rightarrow> Inl e | Inr vs \<Rightarrow> Inr (v # vs))"

text \<open>
  The conversion to a string of a template literal and of a property key. An array joins
  its elements with commas, \<^verbatim>\<open>null\<close> elements as empty strings. A decoded object is
  \<^verbatim>\<open>[object Object]\<close>, unless it has a member named \<^verbatim>\<open>toString\<close>: that member is no
  function, \<^verbatim>\<open>valueOf\<close> gives no primitive value either, and the conversion throws.
\<close>

fun toString :: "jsval \<Rightarrow> error + string" where
  "toString JUndefined = Inr ''undefined''"
| "toString JNull = Inr ''null''"
| "toString (JBool b) = Inr (if b then ''true'' else ''false'')"
| "toString (JNum r) = Inr r"
| "toString (JStr s) = Inr s"
| "toString (JArr xs) =
     (case sequence (map (\<lambda>x. if x = JNull \<or> x = JUndefined then Inr [] else toString x) xs) of
        Inl e \<Rightarrow> Inl e
      | Inr ss \<Rightarrow> Inr (join '','' ss))"
| "toString (JObj kvs) =
     (if ownProp kvs ''toString'' = None then Inr ''[object Object]'' else Inl TypeError)"

section \<open>Locator parsing and value guessing\<close>

text \<open>
  \<^verbatim>\<open>extractCleanSelector\<close> and \<^verbatim>\<open>guessInputValue\<close> have the same text in both
  converter classes; each class gets its own constant below. On a string:
\<close>

definition cleanSelector :: "string \<Rightarrow> string" where
  \<open>cleanSelector target =
     (case rx_cleanLocator target of
        Some locatorPart \<Rightarrow>
          if startsWith locatorPart ''name: '' then
            ''[name="'' @ replaceFirst ''name: '' [] locatorPart @ ''"]''
          else if startsWith locatorPart ''css selector: '' then
            replaceFirst ''css selector: '' [] locatorPart
          else if startsWith locatorPart ''xpath: '' then
            ''xpath='' @ replaceFirst ''xpath: '' [] locatorPart
          else if startsWith locatorPart ''tag name: '' then
            replaceFirst ''tag name: '' [] locatorPart
          else if startsWith locatorPart ''id: '' then
            ''#'' @ replaceFirst ''id: '' [] locatorPart
          else if startsWith locatorPart ''class: '' then
            ''.'' @ replaceFirst ''class: '' [] locatorPart
          else locatorPart
      | None \<Rightarrow>
          if startsWith target ''http'' \<or> startsWith target ''[http'' then stripBrackets target
          else target)\<close>

text \<open>
  The argument is whatever the event has as \<^verbatim>\<open>target\<close>: a falsy value gives the empty
  selector, and a truthy value that is no string has no \<^verbatim>\<open>match\<close> method, so the call
  throws.
\<close>

definition extractCleanSelector :: "jsval \<Rightarrow> error + string" where
  "extractCleanSelector target =
     (if \<not> truthy target then Inr []
      else case target of JStr t \<Rightarrow> Inr (cleanSelector t) | _ \<Rightarrow> Inl TypeError)"

definition guessInputValue :: "string \<Rightarrow> string" where
  "guessInputValue selector =
     (if str_includes selector ''password'' then ''testPassword123''
      else if str_includes selector ''email'' then ''test@example.com''
      else if str_includes selector ''text'' then ''Sample text input''
      else if str_includes selector ''textarea'' then ''This is sample textarea content''
      else if str_includes selector ''name'' then ''John Doe''
      else ''test-value'')"

definition cy_extractCleanSelector :: "jsval \<Rightarrow> error + string" where
  "cy_extractCleanSelector = extractCleanSelector"

definition pw_extractCleanSelector :: "jsval \<Rightarrow> error + string" where
  "pw_extractCleanSelector = extractCleanSelector"

definition cy_guessInputValue :: "string \<Rightarrow> string" where
  "cy_guessInputValue = guessInputValue"

definition pw_guessInputValue :: "string \<Rightarrow> string" where
  "pw_guessInputValue = guessInputValue"

section \<open>Generated fragments\<close>

text \<open>
  A step has the code line and its comment; the Cypress converter adds \<^verbatim>\<open>url\<close> and
  \<^verbatim>\<open>origin\<close> to the step of a \<^verbatim>\<open>get\<close> (\<open>None\<close>: the property is not there).
\<close>

record step =
  action :: string
  comment :: string
  url :: "string option"
  origin :: "string option option"

definition mkStep :: "string \<Rightarrow> string \<Rightarrow> step" where
  "mkStep a c = \<lparr>action = a, comment = c, url = None, origin = None\<rparr>"

text \<open>
  \<^verbatim>\<open>new URL(url)\<close> belongs to the runtime: \<open>U url\<close> is the pair of \<^verbatim>\<open>protocol\<close> and
  \<^verbatim>\<open>host\<close> of the parsed URL, or \<open>None\<close> where the constructor throws.
\<close>

type_synonym url_parser = "string \<Rightarrow> (string \<times> string) option"

definition cy_extractOrigin :: "url_parser \<Rightarrow> string \<Rightarrow> string option" where
  "cy_extractOrigin U u =
     (if u = [] then None
      else case U u of None \<Rightarrow> None | Some (protocol, host) \<Rightarrow> Some (protocol @ ''//'' @ host))"

section \<open>The Cypress action mapper\<close>

definition cy_generateComment :: "string \<Rightarrow> string \<Rightarrow> string" where
  "cy_generateComment txt language = ''// '' @ txt"

definition cy_click :: "string \<Rightarrow> string \<Rightarrow> jsval \<Rightarrow> error + step" where
  \<open>cy_click selector escapedSelector durationMs =
     (let plain =
            (case toString durationMs of
               Inl e \<Rightarrow> Inl e
             | Inr d \<Rightarrow> Inr (mkStep (''cy.get("'' @ escapedSelector @ ''").click()'')
                               (''Click element ('' @ d @ ''ms)'')))
      in case (if str_includes selector ''option'' then rx_parentOption selector else None) of
           None \<Rightarrow> plain
         | Some parentSelector \<Rightarrow>
             if str_includes selector '':has-text('' then
               (case rx_hasText selector of
                  None \<Rightarrow> Inl TypeError
                | Some txt \<Rightarrow>
                    Inr (mkStep (''cy.get("'' @ escapeQuotes parentSelector @ ''").select("''
                                  @ escapeQuotes txt @ ''")'')
                                ''Select option by text''))
             else plain)\<close>

definition cy_back :: "string option \<Rightarrow> string option list \<Rightarrow> step" where
  "cy_back currentOrigin navigationHistory =
     (if length navigationHistory > 1 \<and>
         (case navigationHistory ! (length navigationHistory - 2) of
            None \<Rightarrow> False
          | Some previousOrigin \<Rightarrow> previousOrigin \<noteq> [] \<and> Some previousOrigin \<noteq> currentOrigin)
      then mkStep ''// cy.go('back') - Skipped due to cross-origin navigation''
                  ''Navigate back (skipped - cross-origin)''
      else mkStep ''cy.go('back')'' ''Navigate back'')"

definition cy_convertStep ::
  "url_parser \<Rightarrow> jsval \<Rightarrow> string \<Rightarrow> string option \<Rightarrow> string option list \<Rightarrow> error + step" where
  \<open>cy_convertStep U event language currentOrigin navigationHistory =
     bindE (getProp event ''kind'') (\<lambda>kind.
     bindE (getProp event ''target'') (\<lambda>target.
     bindE (getProp event ''durationMs'') (\<lambda>durationMs.
     bindE (cy_extractCleanSelector target) (\<lambda>selector.
      let escapedSelector = (if selector \<noteq> [] then escapeQuotes selector else []) in
        if kind = JStr ''get'' then
          Inr \<lparr>action = ''cy.visit("'' @ escapedSelector @ ''")'',
               comment = ''Navigate to '' @ selector,
               url = Some escapedSelector,
               origin = Some (cy_extractOrigin U escapedSelector)\<rparr>
        else if kind = JStr ''click'' then cy_click selector escapedSelector durationMs
        else if kind = JStr ''sendKeys'' then
          (let inputValue = cy_guessInputValue selector;
               escapedValue = (if inputValue \<noteq> [] then escapeQuotes inputValue else [])
           in Inr (mkStep (''cy.get("'' @ escapedSelector @ ''").type("'' @ escapedValue @ ''")'')
                          ''Type into input field''))
        else if kind = JStr ''clear'' then
          Inr (mkStep (''cy.get("'' @ escapedSelector @ ''").clear()'') ''Clear input field'')
        else if kind = JStr ''getTagName'' then
          Inr (mkStep (''cy.get("'' @ escapedSelector @ ''").should('be.visible')'')
                      ''Verify element is visible'')
        else if kind = JStr ''Navigation.refresh'' then
          Inr (mkStep ''cy.reload()'' ''Refresh page'')
        else if kind = JStr ''Navigation.back'' then
          Inr (cy_back currentOrigin navigationHistory)
        else if kind = JStr ''Navigation.forward'' then
          Inr (mkStep ''// cy.go('forward') - Skipped due to potential cross-origin navigation''
                      ''Navigate forward (skipped - cross-origin)'')
        else
          (case toString kind of
             Inl e \<Rightarrow> Inl e
           | Inr k \<Rightarrow> Inr (mkStep (cy_generateComment (''TODO: Implement '' @ k @ '' action'') language)
                               (''Unsupported action: '' @ k)))))))\<close>

section \<open>The Playwright action mapper\<close>

definition pw_generatePageAction :: "string \<Rightarrow> string \<Rightarrow> string \<Rightarrow> string option \<Rightarrow> string" where
  \<open>pw_generatePageAction act selector language val =
     (let escapedSelector = (if selector \<noteq> [] then escapeQuotes selector else []);
          escapedValue = (case val of None \<Rightarrow> [] | Some v \<Rightarrow> if v \<noteq> [] then escapeQuotes v else [])
      in if language = ''python'' then
           (if act = ''goto'' then ''await page.goto("'' @ escapedSelector @ ''")''
            else if act = ''click'' then ''await page.click("'' @ escapedSelector @ ''")''
            else if act = ''fill'' then
              ''await page.fill("'' @ escapedSelector @ ''", "'' @ escapedValue @ ''")''
            else if act = ''reload'' then ''await page.reload()''
            else if act = ''goBack'' then ''await page.go_back()''
            else if act = ''goForward'' then ''await page.go_forward()''
            else [])
         else
           (if act = ''goto'' then ''await page.goto("'' @ escapedSelector @ ''");''
            else if act = ''click'' then ''await page.click("'' @ escapedSelector @ ''");''
            else if act = ''fill'' then
              ''await page.fill("'' @ escapedSelector @ ''", "'' @ escapedValue @ ''");''
            else if act = ''reload'' then ''await page.reload();''
            else if act = ''goBack'' then ''await page.goBack();''
            else if act = ''goForward'' then ''await page.goForward();''
            else []))\<close>

text \<open>
  The \<^verbatim>\<open>option\<close> argument of \<^verbatim>\<open>generateSelectOption\<close>: a string, or an object with
  \<^verbatim>\<open>label\<close> and \<^verbatim>\<open>value\<close> members (\<open>None\<close>: the member is not there). The converter
  only ever passes an object with a label and no value.
\<close>

datatype selopt = OptText string | OptObj "string option" "string option"

fun optLabel :: "selopt \<Rightarrow> string option" where
  "optLabel (OptText s) = None"
| "optLabel (OptObj l v) = (case l of Some x \<Rightarrow> if x \<noteq> [] then Some x else None | None \<Rightarrow> None)"

text \<open>
  \<^verbatim>\<open>(option.value || option) ? (option.value || option).replace(/"/g, '\\"') : ''\<close>:
  without a truthy \<^verbatim>\<open>value\<close> the operand is the option itself, and an object has no
  \<^verbatim>\<open>replace\<close> method.
\<close>

fun optEscapedValue :: "selopt \<Rightarrow> error + string" where
  "optEscapedValue (OptText s) = Inr (if s \<noteq> [] then escapeQuotes s else [])"
| "optEscapedValue (OptObj l v) =
     (case v of
        Some x \<Rightarrow> if x \<noteq> [] then Inr (escapeQuotes x) else Inl TypeError
      | None \<Rightarrow> Inl TypeError)"

definition pw_generateSelectOption :: "string \<Rightarrow> selopt \<Rightarrow> string \<Rightarrow> error + string" where
  \<open>pw_generateSelectOption selector opt language =
     (let escapedSelector = (if selector \<noteq> [] then escapeQuotes selector else []);
          escapedLabel = (case optLabel opt of Some l \<Rightarrow> escapeQuotes l | None \<Rightarrow> [])
      in case optEscapedValue opt of
           Inl e \<Rightarrow> Inl e
         | Inr escapedValue \<Rightarrow>
             Inr (if language = ''python'' then
                    (if optLabel opt \<noteq> None then
                       ''await page.select_option("'' @ escapedSelector @ ''", label="''
                         @ escapedLabel @ ''")''
                     else ''await page.select_option("'' @ escapedSelector @ ''", "''
                         @ escapedValue @ ''")'')
                  else
                    (if optLabel opt \<noteq> None then
                       ''await page.selectOption("'' @ escapedSelector @ ''", { label: "''
                         @ escapedLabel @ ''" });''
                     else ''await page.selectOption("'' @ escapedSelector @ ''", "''
                         @ escapedValue @ ''");'')))\<close>

definition pw_generateExpectation :: "string \<Rightarrow> string \<Rightarrow> string \<Rightarrow> string" where
  \<open>pw_generateExpectation assertion selector language =
     (let escapedSelector = (if selector \<noteq> [] then escapeQuotes selector else [])
      in if language = ''python'' then
           ''expect(page.locator("'' @ escapedSelector @ ''")).''
             @ replaceFirst ''to'' ''to_'' assertion @ ''()''
         else
           ''await expect(page.locator("'' @ escapedSelector @ ''")).'' @ assertion @ ''();'')\<close>

definition pw_generateComment :: "string \<Rightarrow> string \<Rightarrow> string" where
  "pw_generateComment txt language =
     (if language = ''python'' then ''# '' @ txt else ''// '' @ txt)"

definition pw_click :: "string \<Rightarrow> string \<Rightarrow> jsval \<Rightarrow> error + step" where
  \<open>pw_click selector language durationMs =
     (let plain =
            (case toString durationMs of
               Inl e \<Rightarrow> Inl e
             | Inr d \<Rightarrow> Inr (mkStep (pw_generatePageAction ''click'' selector language None)
                               (''Click element ('' @ d @ ''ms)'')))
      in case (if str_includes selector ''option'' then rx_parentOption selector else None) of
           None \<Rightarrow> plain
         | Some parentSelector \<Rightarrow>
             if str_includes selector '':has-text('' then
               (case rx_hasText selector of
                  None \<Rightarrow> Inl TypeError
                | Some txt \<Rightarrow>
                    (case pw_generateSelectOption parentSelector (OptObj (Some txt) None) language of
                       Inl e \<Rightarrow> Inl e
                     | Inr a \<Rightarrow> Inr (mkStep a ''Select option by text'')))
             else plain)\<close>

definition pw_convertStep :: "jsval \<Rightarrow> string \<Rightarrow> error + step" where
  \<open>pw_convertStep event language =
     bindE (getProp event ''kind'') (\<lambda>kind.
     bindE (getProp event ''target'') (\<lambda>target.
     bindE (getProp event ''durationMs'') (\<lambda>durationMs.
     bindE (pw_extractCleanSelector target) (\<lambda>selector.
        if kind = JStr ''get'' then
          Inr (mkStep (pw_generatePageAction ''goto'' selector language None)
                      (''Navigate to '' @ selector))
        else if kind = JStr ''click'' then pw_click selector language durationMs
        else if kind = JStr ''sendKeys'' then
          (let inputValue = pw_guessInputValue selector
           in Inr (mkStep (pw_generatePageAction ''fill'' selector language (Some inputValue))
                          ''Fill input field''))
        else if kind = JStr ''clear'' then
          Inr (mkStep (pw_generatePageAction ''fill'' selector language (Some []))
                      ''Clear input field'')
        else if kind = JStr ''getTagName'' then
          Inr (mkStep (pw_generateExpectation ''toBeVisible'' selector language)
                      ''Verify element is visible'')
        else if kind = JStr ''Navigation.refresh'' then
          Inr (mkStep (pw_generatePageAction ''reload'' [] language None) ''Refresh page'')
        else if kind = JStr ''Navigation.back'' then
          Inr (mkStep (pw_generatePageAction ''goBack'' [] language None) ''Navigate back'')
        else if kind = JStr ''Navigation.forward'' then
          Inr (mkStep (pw_generatePageAction ''goForward'' [] language None) ''Navigate forward'')
        else
          (case toString kind of
             Inl e \<Rightarrow> Inl e
           | Inr k \<Rightarrow> Inr (mkStep (pw_generateComment (''TODO: Implement '' @ k @ '' action'') language)
                               (''Unsupported action: '' @ k)))))))\<close>

section \<open>The code emitter\<close>

definition cy_generateJavaScriptTest :: "step list \<Rightarrow> string" where
  \<open>cy_generateJavaScriptTest steps =
     (let testBody = join ''\<newline>\<newline>''
            (map (\<lambda>step. ''    // '' @ comment step @ ''\<newline>    '' @ action step @ '';'') steps)
      in join ''\<newline>''
        [''describe('Migrated Selenium Test', () => {'',
         ''  it('should execute migrated test steps', () => {'',
         ''    // This test was automatically migrated from Selenium trace'',
         ''    '',
         testBody,
         ''  });'',
         [],
         ''  it('should handle form interactions', () => {'',
         ''    // Simplified form interaction test'',
         ''    cy.visit('https://www.selenium.dev/selenium/web/web-form.html');'',
         ''    '',
         ''    cy.get('[name="my-text"]').type('Sample text input');'',
         ''    cy.get('[name="my-password"]').type('testPassword123');'',
         ''    cy.get('[name="my-select"]').select('Two');'',
         ''    cy.get('input[type="checkbox"]').check();'',
         ''    '',
         ''    // Verify form state'',
         ''    cy.get('[name="my-text"]').should('have.value', 'Sample text input');'',
         ''    cy.get('[name="my-select"]').should('have.value', '2');'',
         ''    cy.get('input[type="checkbox"]').should('be.checked');'',
         ''  });'',
         [],
         ''  it('should handle single-origin navigation', () => {'',
         ''    // Test navigation within the same origin to avoid cross-origin issues'',
         ''    cy.visit('https://www.selenium.dev/selenium/web/web-form.html');'',
         ''    cy.get('[name="my-text"]').should('be.visible');'',
         ''    '',
         ''    // Verify we're on the correct page'',
         ''    cy.url().should('include', 'selenium.dev');'',
         ''    cy.title().should('contain', 'Web form');'',
         ''  });'',
         ''});''])\<close>

definition cy_generateTypeScriptTest :: "step list \<Rightarrow> string" where
  \<open>cy_generateTypeScriptTest steps =
     (let testBody = join ''\<newline>\<newline>''
            (map (\<lambda>step. ''    // '' @ comment step @ ''\<newline>    '' @ action step @ '';'') steps)
      in join ''\<newline>''
        [''/// <reference types="cypress" />'',
         [],
         ''describe('Migrated Selenium Test', () => {'',
         ''  it('should execute migrated test steps', () => {'',
         ''    // This test was automatically migrated from Selenium trace'',
         ''    '',
         testBody,
         ''  });'',
         [],
         ''  it('should handle form interactions', () => {'',
         ''    // Simplified form interaction test'',
         ''    cy.visit('https://www.selenium.dev/selenium/web/web-form.html');'',
         ''    '',
         ''    cy.get('[name="my-text"]').type('Sample text input');'',
         ''    cy.get('[name="my-password"]').type('testPassword123');'',
         ''    cy.get('[name="my-select"]').select('Two');'',
         ''    cy.get('input[type="checkbox"]').check();'',
         ''    '',
         ''    // Verify form state'',
         ''    cy.get('[name="my-text"]').should('have.value', 'Sample text input');'',
         ''    cy.get('[name="my-select"]').should('have.value', '2');'',
         ''    cy.get('input[type="checkbox"]').should('be.checked');'',
         ''  });'',
         [],
         ''  it('should handle single-origin navigation', () => {'',
         ''    // Test navigation within the same origin to avoid cross-origin issues'',
         ''    cy.visit('https://www.selenium.dev/selenium/web/web-form.html');'',
         ''    cy.get('[name="my-text"]').should('be.visible');'',
         ''    '',
         ''    // Verify we're on the correct page'',
         ''    cy.url().should('include', 'selenium.dev');'',
         ''    cy.title().should('contain', 'Web form');'',
         ''  });'',
         ''});''])\<close>

definition cy_generateTestFile :: "step list \<Rightarrow> string \<Rightarrow> string" where
  "cy_generateTestFile steps language =
     (if language = ''typescript'' then cy_generateTypeScriptTest steps
      else cy_generateJavaScriptTest steps)"

definition cy_getFilename :: "string \<Rightarrow> string" where
  "cy_getFilename language =
     (if language = ''typescript'' then ''migrated-selenium.cy.ts''
      else ''migrated-selenium.cy.js'')"

definition pw_generateJavaScriptTest :: "step list \<Rightarrow> string" where
  \<open>pw_generateJavaScriptTest steps =
     (let testBody = join ''\<newline>\<newline>''
            (map (\<lambda>step. ''    // '' @ comment step @ ''\<newline>    '' @ action step) steps)
      in join ''\<newline>''
        [''const { test, expect } = require('@playwright/test');'',
         [],
         ''test('Migrated Selenium Test', async ({ page }) => {'',
         ''    // This test was automatically migrated from Selenium trace'',
         ''    '',
         testBody,
         ''    '',
         ''    // Add final verification'',
         ''    await expect(page).toHaveURL(/.+/);'',
         ''});'',
         [],
         ''test.describe('Additional Test Scenarios', () => {'',
         ''    test('Form Interaction Test', async ({ page }) => {'',
         ''        // Simplified form interaction test'',
         ''        await page.goto('https://www.selenium.dev/selenium/web/web-form.html');'',
         ''        '',
         ''        await page.fill('[name="my-text"]', 'Sample text input');'',
         ''        await page.fill('[name="my-password"]', 'testPassword123');'',
         ''        await page.selectOption('[name="my-select"]', { label: 'Two' });'',
         ''        await page.check('input[type="checkbox"]');'',
         ''        '',
         ''        await expect(page.locator('[name="my-text"]')).toHaveValue('Sample text input');'',
         ''        await expect(page.locator('input[type="checkbox"]')).toBeChecked();'',
         ''    });'',
         ''});''])\<close>

definition pw_generateTypeScriptTest :: "step list \<Rightarrow> string" where
  \<open>pw_generateTypeScriptTest steps =
     (let testBody = join ''\<newline>\<newline>''
            (map (\<lambda>step. ''    // '' @ comment step @ ''\<newline>    '' @ action step) steps)
      in join ''\<newline>''
        [''import { test, expect } from '@playwright/test';'',
         [],
         ''test('Migrated Selenium Test', async ({ page }) => {'',
         ''    // This test was automatically migrated from Selenium trace'',
         ''    '',
         testBody,
         ''    '',
         ''    // Add final verification'',
         ''    await expect(page).toHaveURL(/.+/);'',
         ''});'',
         [],
         ''test.describe('Additional Test Scenarios', () => {'',
         ''    test('Form Interaction Test', async ({ page }) => {'',
         ''        // Simplified form interaction test'',
         ''        await page.goto('https://www.selenium.dev/selenium/web/web-form.html');'',
         ''        '',
         ''        await page.fill('[name="my-text"]', 'Sample text input');'',
         ''        await page.fill('[name="my-password"]', 'testPassword123');'',
         ''        await page.selectOption('[name="my-select"]', { label: 'Two' });'',
         ''        await page.check('input[type="checkbox"]');'',
         ''        '',
         ''        await expect(page.locator('[name="my-text"]')).toHaveValue('Sample text input');'',
         ''        await expect(page.locator('input[type="checkbox"]')).toBeChecked();'',
         ''    });'',
         ''});''])\<close>

definition pw_generatePythonTest :: "step list \<Rightarrow> string" where
  \<open>pw_generatePythonTest steps =
     (let testBody = join ''\<newline>\<newline>''
            (map (\<lambda>step. ''    # '' @ comment step @ ''\<newline>    '' @ action step) steps)
      in join ''\<newline>''
        [''import pytest'',
         ''from playwright.async_api import async_playwright, expect'',
         [],
         ''@pytest.mark.asyncio'',
         ''async def test_migrated_selenium_test():'',
         ''    """This test was automatically migrated from Selenium trace"""'',
         ''    async with async_playwright() as p:'',
         ''        browser = await p.chromium.launch()'',
         ''        page = await browser.new_page()'',
         ''        '',
         testBody,
         ''        '',
         ''        # Add final verification'',
         ''        await expect(page).to_have_url(re.compile(r".+"))'',
         ''        '',
         ''        await browser.close()'',
         [],
         ''@pytest.mark.asyncio'',
         ''async def test_form_interaction():'',
         ''    """Simplified form interaction test"""'',
         ''    async with async_playwright() as p:'',
         ''        browser = await p.chromium.launch()'',
         ''        page = await browser.new_page()'',
         ''        '',
         ''        await page.goto("https://www.selenium.dev/selenium/web/web-form.html")'',
         ''        '',
         ''        await page.fill('[name="my-text"]', "Sample text input")'',
         ''        await page.fill('[name="my-password"]', "testPassword123")'',
         ''        await page.select_option('[name="my-select"]', label="Two")'',
         ''        await page.check('input[type="checkbox"]')'',
         ''        '',
         ''        await expect(page.locator('[name="my-text"]')).to_have_value("Sample text input")'',
         ''        await expect(page.locator('input[type="checkbox"]')).to_be_checked()'',
         ''        '',
         ''        await browser.close()''])\<close>


definition pw_generateTestFile :: "step list \<Rightarrow> string \<Rightarrow> string" where
  "pw_generateTestFile steps language =
     (if language = ''python'' then pw_generatePythonTest steps
      else if language = ''typescript'' then pw_generateTypeScriptTest steps
      else pw_generateJavaScriptTest steps)"

definition pw_getFilename :: "string \<Rightarrow> string" where
  "pw_getFilename language =
     (if language = ''python'' then ''test_migrated_selenium.py''
      else if language = ''typescript'' then ''migrated-selenium.spec.ts''
      else ''migrated-selenium.spec.js'')"

section \<open>Statistics\<close>

text \<open>
  \<^verbatim>\<open>actionBreakdown\<close> is a plain object used as a dictionary. A property that the
  object does not have itself is looked up in \<^verbatim>\<open>Object.prototype\<close>, so
  \<^verbatim>\<open>(stats.actionBreakdown[action] || 0) + 1\<close> is a number only where the lookup gives
  a number or nothing: for an inherited member it is that member's text followed by
  \<^verbatim>\<open>1\<close>. A value of the dictionary is a count or such a text. (Counts stay far below
  \<open>2 ^ 53\<close>, where numbers are exact.)
\<close>

datatype bval = Count nat | Text string

definition objectPrototypeMethods :: "string list" where
  "objectPrototypeMethods =
     [''__defineGetter__'', ''__defineSetter__'', ''hasOwnProperty'', ''__lookupGetter__'',
      ''__lookupSetter__'', ''isPrototypeOf'', ''propertyIsEnumerable'', ''toString'',
      ''valueOf'', ''toLocaleString'']"

text \<open>The text of an inherited member, as string concatenation renders it (Node.js).\<close>

definition inheritedText :: "string \<Rightarrow> string option" where
  "inheritedText name =
     (if name = ''constructor'' then Some ''function Object() { [native code] }''
      else if name = ''__proto__'' then Some ''[object Object]''
      else if name \<in> set objectPrototypeMethods then
        Some (''function '' @ name @ ''() { [native code] }'')
      else None)"

text \<open>
  \<^verbatim>\<open>stats.actionBreakdown[action] = (stats.actionBreakdown[action] || 0) + 1\<close>.
  Assigning a string to \<^verbatim>\<open>__proto__\<close> changes nothing.
\<close>

definition bumpCount :: "(string \<Rightarrow> bval option) \<Rightarrow> string \<Rightarrow> (string \<Rightarrow> bval option)" where
  "bumpCount b key =
     (let v = (case b key of
                 Some (Count n) \<Rightarrow> Count (n + 1)
               | Some (Text t) \<Rightarrow> if t = [] then Count 1 else Text (t @ ''1'')
               | None \<Rightarrow> (case inheritedText key of
                            Some t \<Rightarrow> Text (t @ ''1'')
                          | None \<Rightarrow> Count 1))
      in if key = ''__proto__'' then b else b(key \<mapsto> v))"

record stats =
  totalActions :: nat
  convertedActions :: nat
  skippedActions :: nat
  actionBreakdown :: "string \<Rightarrow> bval option"

section \<open>The conversion loop\<close>

text \<open>The instance of a converter class; the constructors follow.\<close>

record converter =
  supportedActions :: "string list"

definition CypressConverter :: converter where
  "CypressConverter =
     \<lparr>supportedActions =
        [''get'', ''click'', ''sendKeys'', ''clear'', ''getTagName'',
         ''Navigation.refresh'', ''Navigation.back'', ''Navigation.forward'']\<rparr>"

definition PlaywrightConverter :: converter where
  "PlaywrightConverter =
     \<lparr>supportedActions =
        [''get'', ''click'', ''sendKeys'', ''clear'', ''getTagName'',
         ''Navigation.refresh'', ''Navigation.back'', ''Navigation.forward'',
         ''Wait.until'']\<rparr>"

definition autoHandledActions :: "string list" where
  "autoHandledActions = [''findElement'', ''findElements'', ''ImplicitWait.set'', ''Navigation.to'']"

text \<open>\<^verbatim>\<open>set.has(v)\<close> on a set of strings: only a string can be a member.\<close>

definition has :: "string list \<Rightarrow> jsval \<Rightarrow> bool" where
  "has xs v = (case v of JStr k \<Rightarrow> k \<in> set xs | _ \<Rightarrow> False)"

text \<open>
  The local variables of \<^verbatim>\<open>convert\<close>: both converters have \<^verbatim>\<open>steps\<close> and
  \<^verbatim>\<open>stats\<close>, the Cypress converter also tracks origins.
\<close>

record tstate =
  steps :: "step list"
  stats :: stats

record cy_state = tstate +
  currentOrigin :: "string option"
  navigationHistory :: "string option list"

definition emptyStats :: stats where
  "emptyStats = \<lparr>totalActions = 0, convertedActions = 0, skippedActions = 0,
                  actionBreakdown = (\<lambda>_. None)\<rparr>"

definition cy_init :: cy_state where
  "cy_init = \<lparr>steps = [], stats = emptyStats, currentOrigin = None, navigationHistory = []\<rparr>"

definition pw_init :: tstate where
  "pw_init = \<lparr>steps = [], stats = emptyStats\<rparr>"

text \<open>
  The fragment for an action outside the supported set:
  \<^verbatim>\<open>{action: generateComment(`Unsupported action: ${action}`, language),
    comment: `Original target: ${event.target || 'N/A'}`}\<close>.
\<close>

definition unsupportedStep :: "(string \<Rightarrow> string \<Rightarrow> string) \<Rightarrow> jsval \<Rightarrow> jsval \<Rightarrow> string \<Rightarrow> error + step" where
  "unsupportedStep generateComment event act language =
     bindE (toString act) (\<lambda>a.
     bindE (getProp event ''target'') (\<lambda>target.
     bindE (if truthy target then toString target else Inr ''N/A'') (\<lambda>t.
       Inr (mkStep (generateComment (''Unsupported action: '' @ a) language)
                   (''Original target: '' @ t)))))"

text \<open>
  The body of \<^verbatim>\<open>try\<close> for a decoded line. Whatever throws inside is caught by the
  empty \<^verbatim>\<open>catch\<close>: the updates made before the throw stay.
\<close>

definition cy_onEvent :: "converter \<Rightarrow> url_parser \<Rightarrow> string \<Rightarrow> cy_state \<Rightarrow> jsval \<Rightarrow> cy_state" where
  "cy_onEvent self U language st event =
     (case getProp event ''evt'' of
        Inl e \<Rightarrow> st
      | Inr evt \<Rightarrow>
          if evt \<noteq> JStr ''step.ok'' then st
          else
            (case bindE (getProp event ''kind'') (\<lambda>act. bindE (toString act) (\<lambda>key. Inr (act, key))) of
               Inl e \<Rightarrow> st
             | Inr (act, key) \<Rightarrow>
                 let st1 = st\<lparr>stats := (stats st)\<lparr>actionBreakdown :=
                              bumpCount (actionBreakdown (stats st)) key\<rparr>\<rparr>;
                     st2 = (if \<not> has autoHandledActions act
                            then st1\<lparr>stats := (stats st1)\<lparr>totalActions :=
                                   totalActions (stats st1) + 1\<rparr>\<rparr>
                            else st1)
                 in if has (supportedActions self) act then
                      (case cy_convertStep U event language (currentOrigin st2) (navigationHistory st2) of
                         Inl e \<Rightarrow> st2
                       | Inr step \<Rightarrow>
                           let st3 = st2\<lparr>steps := steps st2 @ [step],
                                         stats := (stats st2)\<lparr>convertedActions :=
                                           convertedActions (stats st2) + 1\<rparr>\<rparr>
                           in (case url step of
                                 None \<Rightarrow> st3
                               | Some u \<Rightarrow>
                                   if act = JStr ''get'' \<and> u \<noteq> [] then
                                     st3\<lparr>navigationHistory :=
                                            navigationHistory st3 @ [cy_extractOrigin U u],
                                          currentOrigin := cy_extractOrigin U u\<rparr>
                                   else st3))
                    else if \<not> has autoHandledActions act then
                      (let st3 = st2\<lparr>stats := (stats st2)\<lparr>skippedActions :=
                                      skippedActions (stats st2) + 1\<rparr>\<rparr>
                       in case unsupportedStep cy_generateComment event act language of
                            Inl e \<Rightarrow> st3
                          | Inr step \<Rightarrow> st3\<lparr>steps := steps st3 @ [step]\<rparr>)
                    else st2))"

definition pw_onEvent :: "converter \<Rightarrow> string \<Rightarrow> tstate \<Rightarrow> jsval \<Rightarrow> tstate" where
  "pw_onEvent self language st event =
     (case getProp event ''evt'' of
        Inl e \<Rightarrow> st
      | Inr evt \<Rightarrow>
          if evt \<noteq> JStr ''step.ok'' then st
          else
            (let st1 = st\<lparr>stats := (stats st)\<lparr>totalActions := totalActions (stats st) + 1\<rparr>\<rparr>
             in case bindE (getProp event ''kind'') (\<lambda>act. bindE (toString act) (\<lambda>key. Inr (act, key))) of
                  Inl e \<Rightarrow> st1
                | Inr (act, key) \<Rightarrow>
                    let st2 = st1\<lparr>stats := (stats st1)\<lparr>actionBreakdown :=
                                 bumpCount (actionBreakdown (stats st1)) key\<rparr>\<rparr>
                    in if has (supportedActions self) act then
                         (case pw_convertStep event language of
                            Inl e \<Rightarrow> st2
                          | Inr step \<Rightarrow>
                              st2\<lparr>steps := steps st2 @ [step],
                                  stats := (stats st2)\<lparr>convertedActions :=
                                    convertedActions (stats st2) + 1\<rparr>\<rparr>)
                       else
                         (let st3 = st2\<lparr>stats := (stats st2)\<lparr>skippedActions :=
                                         skippedActions (stats st2) + 1\<rparr>\<rparr>
                          in case unsupportedStep pw_generateComment event act language of
                               Inl e \<Rightarrow> st3
                             | Inr step \<Rightarrow> st3\<lparr>steps := steps st3 @ [step]\<rparr>)))"

text \<open>
  \<^verbatim>\<open>JSON.parse\<close> belongs to the runtime: \<open>D line\<close> is the decoded value, or \<open>None\<close>
  where it throws. A line that does not decode is skipped by the same \<^verbatim>\<open>catch\<close>.
\<close>

type_synonym json_decoder = "string \<Rightarrow> jsval option"

definition cy_onLine ::
  "converter \<Rightarrow> json_decoder \<Rightarrow> url_parser \<Rightarrow> string \<Rightarrow> cy_state \<Rightarrow> string \<Rightarrow> cy_state" where
  "cy_onLine self D U language st line =
     (case D line of None \<Rightarrow> st | Some event \<Rightarrow> cy_onEvent self U language st event)"

definition pw_onLine :: "converter \<Rightarrow> json_decoder \<Rightarrow> string \<Rightarrow> tstate \<Rightarrow> string \<Rightarrow> tstate" where
  "pw_onLine self D language st line =
     (case D line of None \<Rightarrow> st | Some event \<Rightarrow> pw_onEvent self language st event)"

text \<open>\<^verbatim>\<open>traceContent.split('\n').filter(line => line.trim())\<close>\<close>

definition traceLines :: "string \<Rightarrow> string list" where
  "traceLines traceContent = filter (\<lambda>line. trim line \<noteq> []) (split_nl traceContent)"

section \<open>The converters\<close>

record conversion =
  content :: string
  filename :: string
  stats_out :: stats

text \<open>The conversion of a trace that has been read.\<close>

definition cy_convertContent ::
  "converter \<Rightarrow> json_decoder \<Rightarrow> url_parser \<Rightarrow> string \<Rightarrow> string \<Rightarrow> conversion" where
  "cy_convertContent self D U traceContent language =
     (let st = foldl (cy_onLine self D U language) cy_init (traceLines traceContent)
      in \<lparr>content = cy_generateTestFile (steps st) language,
          filename = cy_getFilename language,
          stats_out = stats st\<rparr>)"

definition pw_convertContent :: "converter \<Rightarrow> json_decoder \<Rightarrow> string \<Rightarrow> string \<Rightarrow> conversion" where
  "pw_convertContent self D traceContent language =
     (let st = foldl (pw_onLine self D language) pw_init (traceLines traceContent)
      in \<lparr>content = pw_generateTestFile (steps st) language,
          filename = pw_getFilename language,
          stats_out = stats st\<rparr>)"

text \<open>
  \<^verbatim>\<open>convert(traceFilePath, language)\<close> is a method: it runs on the converter object and
  on the file system, which it reads once (\<open>None\<close>: the file cannot be read, and the call
  fails). It returns its result and leaves both as they were.
\<close>

type_synonym filesystem = "string \<Rightarrow> string option"

definition cy_convert ::
  "json_decoder \<Rightarrow> url_parser \<Rightarrow> converter \<times> filesystem \<Rightarrow> string \<Rightarrow> string
     \<Rightarrow> (error + conversion) \<times> (converter \<times> filesystem)" where
  "cy_convert D U w traceFilePath language =
     (case snd w traceFilePath of
        None \<Rightarrow> (Inl ReadError, w)
      | Some traceContent \<Rightarrow> (Inr (cy_convertContent (fst w) D U traceContent language), w))"

definition pw_convert ::
  "json_decoder \<Rightarrow> converter \<times> filesystem \<Rightarrow> string \<Rightarrow> string
     \<Rightarrow> (error + conversion) \<times> (converter \<times> filesystem)" where
  "pw_convert D w traceFilePath language =
     (case snd w traceFilePath of
        None \<Rightarrow> (Inl ReadError, w)
      | Some traceContent \<Rightarrow> (Inr (pw_convertContent (fst w) D traceContent language), w))"

section \<open>Notions for stating the properties\<close>

text \<open>The count that the dictionary holds for a kind (0 where it holds none).\<close>

definition countOf :: "(string \<Rightarrow> bval option) \<Rightarrow> string \<Rightarrow> nat" where
  "countOf b k = (case b k of Some (Count n) \<Rightarrow> n | _ \<Rightarrow> 0)"

text \<open>No kind outside the members of \<^verbatim>\<open>Object.prototype\<close> has a text as its count.\<close>

definition plainCounts :: "(string \<Rightarrow> bval option) \<Rightarrow> bool" where
  "plainCounts b \<longleftrightarrow> (\<forall>k t. inheritedText k = None \<longrightarrow> b k \<noteq> Some (Text t))"

definition statsOk :: "stats \<Rightarrow> bool" where
  "statsOk s \<longleftrightarrow>
     convertedActions s + skippedActions s \<le> totalActions s \<and> plainCounts (actionBreakdown s)"

text \<open>The current origin is the origin recorded last.\<close>

definition originInv :: "cy_state \<Rightarrow> bool" where
  "originInv st \<longleftrightarrow>
     currentOrigin st = (if navigationHistory st = [] then None else last (navigationHistory st))"

text \<open>A decoded \<^verbatim>\<open>step.ok\<close> event of a kind, with further members.\<close>

definition stepOk :: "string \<Rightarrow> (string \<times> jsval) list \<Rightarrow> jsval" where
  "stepOk kind rest = JObj ([(''evt'', JStr ''step.ok''), (''kind'', JStr kind)] @ rest)"

text \<open>
  The runtime on the inputs of the examples: what \<^verbatim>\<open>new URL\<close> makes of four
  addresses (\<^verbatim>\<open>not-a-url\<close> has no scheme, the constructor throws), and what
  \<^verbatim>\<open>JSON.parse\<close> makes of four lines (\<^verbatim>\<open>{not json\<close> does not decode). Nothing
  else is asked of them.
\<close>

definition exampleURL :: url_parser where
  "exampleURL u =
     (if u = ''https://a.test/x'' then Some (''https:'', ''a.test'')
      else if u = ''https://a.test/z'' then Some (''https:'', ''a.test'')
      else if u = ''https://b.test/y'' then Some (''https:'', ''b.test'')
      else None)"

definition exampleJSON :: json_decoder where
  \<open>exampleJSON line =
     (if line = ''{"evt":"step.ok","kind":"get","target":"https://a.test/x"}'' then
        Some (stepOk ''get'' [(''target'', JStr ''https://a.test/x'')])
      else if line = ''{"evt":"step.ok","kind":"findElement"}'' then
        Some (stepOk ''findElement'' [])
      else if line = ''{"evt":"step.ok","kind":"toString"}'' then
        Some (stepOk ''toString'' [])
      else None)\<close>



section \<open>Strings and patterns: basic facts\<close>

lemma str_includes_sublist: "str_includes s p \<longleftrightarrow> sublist p s"
  by (induction s) (auto simp: sublist_Cons_right)

lemma textarea_has_text: "str_includes s ''textarea'' \<Longrightarrow> str_includes s ''text''"
proof -
  assume "str_includes s ''textarea''"
  then obtain ps ss where "s = ps @ ''textarea'' @ ss"
    by (auto simp: str_includes_sublist sublist_def)
  then have "s = ps @ ''text'' @ (''area'' @ ss)" by simp
  then have "sublist ''text'' s" by (simp only: sublist_appendI)
  then show ?thesis by (simp add: str_includes_sublist)
qed

lemma guessInputValue_never_paragraph:
  "guessInputValue s \<noteq> ''This is sample textarea content''"
  using textarea_has_text[of s] by (simp add: guessInputValue_def)

lemmas rx_defs = rx_cleanLocator_def rx_parentOption_def rx_hasText_def rx_lit_def
  isLineTerminator_def

lemmas extract_defs = cy_extractCleanSelector_def pw_extractCleanSelector_def
  extractCleanSelector_def cleanSelector_def

text \<open>
  A lazy run goes over characters that the continuation refuses, up to the first
  character \<open>x\<close> where the continuation succeeds.
\<close>

lemma rx_lazy0_until:
  assumes "\<forall>c\<in>set d. \<not> isLineTerminator c \<and> c \<noteq> x"
    and "\<And>cap y s. y \<noteq> x \<Longrightarrow> k cap (y # s) = None"
    and "k (acc @ d) (x # r) = Some v"
  shows "rx_lazy 0 k acc (d @ x # r) = Some v"
  using assms
proof (induction d arbitrary: acc)
  case Nil
  then show ?case by simp
next
  case (Cons c d)
  have "k acc (c # d @ x # r) = None" using Cons.prems(1,2) by simp
  moreover have "rx_lazy 0 k (acc @ [c]) (d @ x # r) = Some v"
    using Cons.prems by (intro Cons.IH) auto
  ultimately show ?case using Cons.prems(1) by simp
qed

text \<open>
  On a target that starts with the bracketed prefix, the locator pattern captures the
  first character after the arrow and what follows it up to the next closing bracket.
\<close>

lemma rx_cleanLocator_bracketed:
  assumes d: "\<forall>c\<in>set d. \<not> isLineTerminator c \<and> c \<noteq> CHR '']''"
    and a: "\<not> isLineTerminator a"
    and w: "\<forall>c\<in>set w. \<not> isLineTerminator c \<and> c \<noteq> CHR '']''"
  shows "rx_cleanLocator (''[['' @ d @ ''] -> '' @ a # w @ '']'' @ rest) = Some (a # w)"
proof -
  let ?k2 = "\<lambda>cap. rx_lit '']'' (\<lambda>_. Some cap)"
  let ?k1 = "\<lambda>_::string. rx_lit ''] -> '' (rx_lazy 1 ?k2 [])"
  have inner: "rx_lazy 0 ?k2 [a] (w @ CHR '']'' # rest) = Some (a # w)"
    by (rule rx_lazy0_until[where acc="[a]", simplified]) (use w in \<open>auto simp: rx_lit_def\<close>)
  have k1: "?k1 d (CHR '']'' # '' -> '' @ a # w @ '']'' @ rest) = Some (a # w)"
    using a inner by (simp add: rx_lit_def)
  have outer: "rx_lazy 0 ?k1 [] (d @ CHR '']'' # ('' -> '' @ a # w @ '']'' @ rest)) = Some (a # w)"
    by (rule rx_lazy0_until[where acc="[]", simplified]) (use d k1 in \<open>auto simp: rx_lit_def\<close>)
  show ?thesis using outer by (simp add: rx_cleanLocator_def rx_lit_def)
qed

text \<open>Escaping puts a backslash right before every double quote of the result.\<close>

lemma escapeQuotes_simps:
  "escapeQuotes [] = []"
  "escapeQuotes (c # s) = (if c = CHR 0x22 then CHR 0x5C # CHR 0x22 # escapeQuotes s else c # escapeQuotes s)"
  by (simp_all add: escapeQuotes_def)


text \<open>Splitting what was joined gives the lines back.\<close>

lemma split_nl_line: "CHR 0x0A \<notin> set x \<Longrightarrow> split_nl (x @ CHR 0x0A # r) = x # split_nl r"
  by (induction x) auto

lemma split_nl_single: "CHR 0x0A \<notin> set x \<Longrightarrow> split_nl x = [x]"
  by (induction x) auto

lemma split_nl_join:
  "xs \<noteq> [] \<Longrightarrow> \<forall>x\<in>set xs. CHR 0x0A \<notin> set x \<Longrightarrow> split_nl (join ''\<newline>'' xs) = xs"
  by (induction "''\<newline>''" xs rule: join.induct) (simp_all add: split_nl_single split_nl_line)

lemma traceLines_join:
  assumes "\<forall>x\<in>set xs. CHR 0x0A \<notin> set x"
  shows "traceLines (join ''\<newline>'' xs) = filter (\<lambda>l. trim l \<noteq> []) xs"
proof (cases xs)
  case Nil
  then show ?thesis by (simp add: traceLines_def trim_def)
next
  case (Cons a list)
  then show ?thesis using assms split_nl_join[of xs] by (simp add: traceLines_def)
qed

lemma foldl_skip:
  assumes "\<And>st. f st l = st"
  shows "foldl f s (pre @ l # post) = foldl f s (pre @ post)"
  using assms by simp














section \<open>Locator parsing\<close>

text \<open>
  C2. In both converters the selector extraction maps \<^verbatim>\<open>[[drv] -> id: foo]\<close> to
  \<^verbatim>\<open>#foo\<close>, \<^verbatim>\<open>[[drv] -> name: bar]\<close> to \<^verbatim>\<open>[name="bar"]\<close> and
  \<^verbatim>\<open>[[drv] -> css selector: .x > y]\<close> to \<^verbatim>\<open>.x > y\<close>; a string that the bracketed
  pattern does not match and that does not start like a URL comes back as it is.
\<close>

theorem extractCleanSelector_examples:
  \<open>cy_extractCleanSelector (JStr ''[[drv] -> id: foo]'') = Inr ''#foo'' \<and>
   pw_extractCleanSelector (JStr ''[[drv] -> id: foo]'') = Inr ''#foo'' \<and>
   cy_extractCleanSelector (JStr ''[[drv] -> name: bar]'') = Inr ''[name="bar"]'' \<and>
   pw_extractCleanSelector (JStr ''[[drv] -> name: bar]'') = Inr ''[name="bar"]'' \<and>
   cy_extractCleanSelector (JStr ''[[drv] -> css selector: .x > y]'') = Inr ''.x > y'' \<and>
   pw_extractCleanSelector (JStr ''[[drv] -> css selector: .x > y]'') = Inr ''.x > y'' \<and>
   (rx_cleanLocator t = None \<longrightarrow> \<not> startsWith t ''http'' \<longrightarrow> \<not> startsWith t ''[http'' \<longrightarrow>
      cy_extractCleanSelector (JStr t) = Inr t \<and> pw_extractCleanSelector (JStr t) = Inr t)\<close>
proof (intro conjI impI)
  show \<open>cy_extractCleanSelector (JStr ''[[drv] -> id: foo]'') = Inr ''#foo''\<close>
    by (simp add: extract_defs rx_defs)
  show \<open>pw_extractCleanSelector (JStr ''[[drv] -> id: foo]'') = Inr ''#foo''\<close>
    by (simp add: extract_defs rx_defs)
  show \<open>cy_extractCleanSelector (JStr ''[[drv] -> name: bar]'') = Inr ''[name="bar"]''\<close>
    by (simp add: extract_defs rx_defs)
  show \<open>pw_extractCleanSelector (JStr ''[[drv] -> name: bar]'') = Inr ''[name="bar"]''\<close>
    by (simp add: extract_defs rx_defs)
  show \<open>cy_extractCleanSelector (JStr ''[[drv] -> css selector: .x > y]'') = Inr ''.x > y''\<close>
    by (simp add: extract_defs rx_defs)
  show \<open>pw_extractCleanSelector (JStr ''[[drv] -> css selector: .x > y]'') = Inr ''.x > y''\<close>
    by (simp add: extract_defs rx_defs)
next
  assume "rx_cleanLocator t = None" "\<not> startsWith t ''http''" "\<not> startsWith t ''[http''"
  then show "cy_extractCleanSelector (JStr t) = Inr t" "pw_extractCleanSelector (JStr t) = Inr t"
    by (simp_all add: extract_defs)
qed

theorem extractCleanSelector_examples_witness:
  "rx_cleanLocator ''plain-target'' = None \<and>
   \<not> startsWith ''plain-target'' ''http'' \<and> \<not> startsWith ''plain-target'' ''[http'' \<and>
   cy_extractCleanSelector (JStr ''plain-target'') = Inr ''plain-target'' \<and>
   pw_extractCleanSelector (JStr ''plain-target'') = Inr ''plain-target''"
proof -
  have h1: "rx_cleanLocator ''plain-target'' = None" by (simp add: rx_defs)
  have h2: "\<not> startsWith ''plain-target'' ''http''" by simp
  have h3: "\<not> startsWith ''plain-target'' ''[http''" by simp
  from extractCleanSelector_examples[of "''plain-target''"] h1 h2 h3
  have "cy_extractCleanSelector (JStr ''plain-target'') = Inr ''plain-target'' \<and>
        pw_extractCleanSelector (JStr ''plain-target'') = Inr ''plain-target''"
    by blast
  with h1 h2 h3 show ?thesis by blast
qed

text \<open>
  C10. A target of the bracketed form \<^verbatim>\<open>[[d] -> k: v]\<close> (driver text \<open>d\<close> and kind \<open>k\<close>
  without closing bracket, all on one line) whose value \<open>v\<close> has a closing bracket is cut
  at the first closing bracket of the value: with \<open>v = v1 ] v2\<close> and no bracket in \<open>v1\<close>,
  both converters extract what they extract from \<^verbatim>\<open>[[d] -> k: v1]\<close>, which is \<open>v1\<close> for
  a CSS selector. So \<^verbatim>\<open>[[drv] -> css selector: a[href="x"]]\<close> gives \<^verbatim>\<open>a[href="x"\<close>.
\<close>

theorem extractCleanSelector_truncates:
  assumes "\<forall>c\<in>set (d @ k @ v1). \<not> isLineTerminator c \<and> c \<noteq> CHR '']''"
  shows
    \<open>cy_extractCleanSelector (JStr (''[['' @ d @ ''] -> '' @ k @ '': '' @ v1 @ '']'' @ v2 @ '']''))
       = cy_extractCleanSelector (JStr (''[['' @ d @ ''] -> '' @ k @ '': '' @ v1 @ '']'')) \<and>
     pw_extractCleanSelector (JStr (''[['' @ d @ ''] -> '' @ k @ '': '' @ v1 @ '']'' @ v2 @ '']''))
       = pw_extractCleanSelector (JStr (''[['' @ d @ ''] -> '' @ k @ '': '' @ v1 @ '']'')) \<and>
     (k = ''css selector'' \<longrightarrow>
        cy_extractCleanSelector (JStr (''[['' @ d @ ''] -> '' @ k @ '': '' @ v1 @ '']'' @ v2 @ '']''))
          = Inr v1 \<and>
        pw_extractCleanSelector (JStr (''[['' @ d @ ''] -> '' @ k @ '': '' @ v1 @ '']'' @ v2 @ '']''))
          = Inr v1) \<and>
     cy_extractCleanSelector (JStr ''[[drv] -> css selector: a[href="x"]]'') = Inr ''a[href="x"'' \<and>
     pw_extractCleanSelector (JStr ''[[drv] -> css selector: a[href="x"]]'') = Inr ''a[href="x"''\<close>
proof -
  obtain a w where aw: "k @ '': '' @ v1 = a # w"
    by (cases "k @ '': '' @ v1") auto
  have a: "\<not> isLineTerminator a"
    using aw assms by (cases k) (auto simp: isLineTerminator_def)
  have w: "\<forall>c\<in>set w. \<not> isLineTerminator c \<and> c \<noteq> CHR '']''"
  proof
    fix c assume "c \<in> set w"
    then have "c \<in> set (k @ '': '' @ v1)" using aw by (metis list.set_intros(2))
    then show "\<not> isLineTerminator c \<and> c \<noteq> CHR '']''"
      using assms by (auto simp: isLineTerminator_def)
  qed
  have d: "\<forall>c\<in>set d. \<not> isLineTerminator c \<and> c \<noteq> CHR '']''"
    using assms by simp
  have long: "rx_cleanLocator (''[['' @ d @ ''] -> '' @ k @ '': '' @ v1 @ '']'' @ v2 @ '']'')
                = Some (k @ '': '' @ v1)"
    using rx_cleanLocator_bracketed[OF d a w, of "v2 @ '']''"] aw
    by (metis append.assoc append_Cons)
  have short: "rx_cleanLocator (''[['' @ d @ ''] -> '' @ k @ '': '' @ v1 @ '']'')
                = Some (k @ '': '' @ v1)"
    using rx_cleanLocator_bracketed[OF d a w, of "[]"] aw
    by (metis append.assoc append_Cons append_Nil2)
  have same: "cleanSelector (''[['' @ d @ ''] -> '' @ k @ '': '' @ v1 @ '']'' @ v2 @ '']'')
                = cleanSelector (''[['' @ d @ ''] -> '' @ k @ '': '' @ v1 @ '']'')"
    unfolding cleanSelector_def long short by (simp only: option.case)
  have css: "cleanSelector (''[['' @ d @ ''] -> '' @ k @ '': '' @ v1 @ '']'' @ v2 @ '']'') = v1"
    if "k = ''css selector''"
    unfolding cleanSelector_def long using that by simp
  have ex: \<open>cleanSelector ''[[drv] -> css selector: a[href="x"]]'' = ''a[href="x"''\<close>
    by (simp add: cleanSelector_def rx_defs)
  show ?thesis
    using same css ex
    by (simp add: cy_extractCleanSelector_def pw_extractCleanSelector_def extractCleanSelector_def)
qed

theorem extractCleanSelector_truncates_witness:
  \<open>list_all (\<lambda>c. \<not> isLineTerminator c \<and> c \<noteq> CHR '']'') (''drv'' @ ''css selector'' @ ''a[href="x"'') \<and>
   cy_extractCleanSelector (JStr (''[['' @ ''drv'' @ ''] -> '' @ ''css selector'' @ '': '' @ ''a[href="x"''
      @ '']'' @ [] @ '']'')) = Inr ''a[href="x"'' \<and>
   pw_extractCleanSelector (JStr (''[['' @ ''drv'' @ ''] -> '' @ ''css selector'' @ '': '' @ ''a[href="x"''
      @ '']'' @ [] @ '']'')) = Inr ''a[href="x"''\<close>
proof -
  have h: \<open>\<forall>c\<in>set (''drv'' @ ''css selector'' @ ''a[href="x"''). \<not> isLineTerminator c \<and> c \<noteq> CHR '']''\<close>
    by (simp add: isLineTerminator_def)
  have l: \<open>list_all (\<lambda>c. \<not> isLineTerminator c \<and> c \<noteq> CHR '']'') (''drv'' @ ''css selector'' @ ''a[href="x"'')\<close>
    using h by (simp only: list_all_iff)
  from extractCleanSelector_truncates[OF h, of "[]"] l show ?thesis
    by blast
qed

section \<open>Fabricated input values\<close>

text \<open>
  C4. The value typed into a field is chosen from the selector: password, email, text,
  textarea, name, in this order. The test for \<^verbatim>\<open>text\<close> comes before the test for
  \<^verbatim>\<open>textarea\<close>, so a selector with \<^verbatim>\<open>textarea\<close> in it gets the placeholder text, and
  no selector at all gets the placeholder paragraph, in either converter.
\<close>

theorem guessInputValue_textarea:
  "cy_guessInputValue ''textarea'' = ''Sample text input'' \<and>
   pw_guessInputValue ''textarea'' = ''Sample text input'' \<and>
   (\<forall>selector. cy_guessInputValue selector \<noteq> ''This is sample textarea content'' \<and>
               pw_guessInputValue selector \<noteq> ''This is sample textarea content'')"
  using guessInputValue_never_paragraph
  by (simp add: cy_guessInputValue_def pw_guessInputValue_def guessInputValue_def)

section \<open>Escaping in the generated code lines\<close>

lemma getProp_object: "getProp ev name = Inr (JStr k) \<Longrightarrow> \<exists>kvs. ev = JObj kvs"
  by (cases ev) auto

text \<open>
  The Playwright converter passes \<^verbatim>\<open>{ label: ... }\<close> to \<^verbatim>\<open>generateSelectOption\<close>,
  which then calls \<^verbatim>\<open>replace\<close> on that object: the call throws, and a click on an
  option by text produces no step in this converter.
\<close>

lemma pw_select_always_throws:
  "pw_generateSelectOption selector (OptObj (Some label) None) language = Inl TypeError"
  by (simp add: pw_generateSelectOption_def)

lemma cy_convertStep_selector:
  assumes "getProp ev ''kind'' = Inr (JStr k)" "getProp ev ''target'' = Inr tg"
    "cy_extractCleanSelector tg = Inr s"
  shows \<open>k = ''get'' \<longrightarrow> cy_convertStep U ev lang co nh =
           Inr \<lparr>action = ''cy.visit("'' @ escapeQuotes s @ ''")'', comment = ''Navigate to '' @ s,
                url = Some (escapeQuotes s), origin = Some (cy_extractOrigin U (escapeQuotes s))\<rparr>\<close>
    and \<open>k = ''sendKeys'' \<longrightarrow> cy_convertStep U ev lang co nh =
           Inr (mkStep (''cy.get("'' @ escapeQuotes s @ ''").type("''
                          @ escapeQuotes (cy_guessInputValue s) @ ''")'') ''Type into input field'')\<close>
    and \<open>k = ''clear'' \<longrightarrow> cy_convertStep U ev lang co nh =
           Inr (mkStep (''cy.get("'' @ escapeQuotes s @ ''").clear()'') ''Clear input field'')\<close>
    and \<open>k = ''getTagName'' \<longrightarrow> cy_convertStep U ev lang co nh =
           Inr (mkStep (''cy.get("'' @ escapeQuotes s @ ''").should('be.visible')'')
                       ''Verify element is visible'')\<close>
    and \<open>k = ''click'' \<longrightarrow> (\<forall>st. cy_convertStep U ev lang co nh = Inr st \<longrightarrow>
           action st = ''cy.get("'' @ escapeQuotes s @ ''").click()'' \<or>
           (\<exists>p t. action st = ''cy.get("'' @ escapeQuotes p @ ''").select("'' @ escapeQuotes t @ ''")''))\<close>
    and \<open>k = ''Navigation.back'' \<longrightarrow> cy_convertStep U ev lang co nh = Inr (cy_back co nh)\<close>
proof -
  obtain kvs where ev: "ev = JObj kvs" using assms(1) getProp_object by blast
  have e: "(if s \<noteq> [] then escapeQuotes s else []) = escapeQuotes s"
    by (simp add: escapeQuotes_simps)
  have g: "(if cy_guessInputValue s \<noteq> [] then escapeQuotes (cy_guessInputValue s) else [])
             = escapeQuotes (cy_guessInputValue s)"
    by (simp add: escapeQuotes_simps)
  note defs = cy_convertStep_def bindE_def Let_def e g
  show \<open>k = ''get'' \<longrightarrow> cy_convertStep U ev lang co nh =
           Inr \<lparr>action = ''cy.visit("'' @ escapeQuotes s @ ''")'', comment = ''Navigate to '' @ s,
                url = Some (escapeQuotes s), origin = Some (cy_extractOrigin U (escapeQuotes s))\<rparr>\<close>
    using assms ev by (simp add: defs)
  show \<open>k = ''sendKeys'' \<longrightarrow> cy_convertStep U ev lang co nh =
           Inr (mkStep (''cy.get("'' @ escapeQuotes s @ ''").type("''
                          @ escapeQuotes (cy_guessInputValue s) @ ''")'') ''Type into input field'')\<close>
    using assms ev by (simp add: defs)
  show \<open>k = ''clear'' \<longrightarrow> cy_convertStep U ev lang co nh =
           Inr (mkStep (''cy.get("'' @ escapeQuotes s @ ''").clear()'') ''Clear input field'')\<close>
    using assms ev by (simp add: defs)
  show \<open>k = ''getTagName'' \<longrightarrow> cy_convertStep U ev lang co nh =
           Inr (mkStep (''cy.get("'' @ escapeQuotes s @ ''").should('be.visible')'')
                       ''Verify element is visible'')\<close>
    using assms ev by (simp add: defs)
  show \<open>k = ''Navigation.back'' \<longrightarrow> cy_convertStep U ev lang co nh = Inr (cy_back co nh)\<close>
    using assms ev by (simp add: defs)
  show \<open>k = ''click'' \<longrightarrow> (\<forall>st. cy_convertStep U ev lang co nh = Inr st \<longrightarrow>
           action st = ''cy.get("'' @ escapeQuotes s @ ''").click()'' \<or>
           (\<exists>p t. action st = ''cy.get("'' @ escapeQuotes p @ ''").select("'' @ escapeQuotes t @ ''")''))\<close>
    using assms ev
    by (auto simp: defs cy_click_def mkStep_def split: sum.splits option.splits if_splits)
qed







section \<open>Statistics of a conversion\<close>

lemma supported_not_autoHandled:
  "has (supportedActions CypressConverter) act \<Longrightarrow> \<not> has autoHandledActions act"
  by (auto simp: has_def CypressConverter_def autoHandledActions_def split: jsval.splits)

lemma plainCounts_bump: "plainCounts b \<Longrightarrow> plainCounts (bumpCount b key)"
  by (auto simp: plainCounts_def bumpCount_def Let_def split: option.splits bval.splits)

lemma cy_onEvent_statsOk:
  "statsOk (stats st) \<Longrightarrow> statsOk (stats (cy_onEvent CypressConverter U lang st ev))"
  by (auto simp: cy_onEvent_def Let_def statsOk_def plainCounts_bump
           split: sum.splits option.splits prod.splits dest: supported_not_autoHandled)

lemma pw_onEvent_statsOk:
  "statsOk (stats st) \<Longrightarrow> statsOk (stats (pw_onEvent self lang st ev))"
  by (auto simp: pw_onEvent_def Let_def statsOk_def plainCounts_bump
           split: sum.splits option.splits prod.splits)

lemma cy_onLine_statsOk:
  "statsOk (stats st) \<Longrightarrow> statsOk (stats (cy_onLine CypressConverter D U lang st l))"
  by (simp add: cy_onLine_def cy_onEvent_statsOk split: option.splits)

lemma pw_onLine_statsOk:
  "statsOk (stats st) \<Longrightarrow> statsOk (stats (pw_onLine self D lang st l))"
  by (simp add: pw_onLine_def pw_onEvent_statsOk split: option.splits)

lemma cy_run_statsOk:
  "statsOk (stats (foldl (cy_onLine CypressConverter D U lang) cy_init ls))"
  by (induction ls rule: rev_induct)
     (simp_all add: cy_onLine_statsOk, simp add: statsOk_def cy_init_def emptyStats_def plainCounts_def)

lemma pw_run_statsOk:
  "statsOk (stats (foldl (pw_onLine self D lang) pw_init ls))"
  by (induction ls rule: rev_induct)
     (simp_all add: pw_onLine_statsOk, simp add: statsOk_def pw_init_def emptyStats_def plainCounts_def)

lemma inheritedText_autoHandled: "k \<in> set autoHandledActions \<Longrightarrow> inheritedText k = None"
  by (auto simp: autoHandledActions_def inheritedText_def objectPrototypeMethods_def)

lemma bumpCount_plain:
  assumes "plainCounts b" "inheritedText k = None"
  shows "bumpCount b k k = Some (Count (countOf b k + 1))"
proof -
  have "k \<noteq> ''__proto__''" using assms(2) by (auto simp: inheritedText_def)
  moreover have "b k = None \<or> (\<exists>n. b k = Some (Count n))"
    using assms by (cases "b k") (auto simp: plainCounts_def intro: bval.exhaust)
  ultimately show ?thesis
    using assms(2) by (auto simp: bumpCount_def countOf_def)
qed

text \<open>
  In every conversion, converted and skipped actions together never exceed the total
  (the three counters are natural numbers that only grow).
\<close>

lemma stats_inequality:
  "convertedActions (stats_out (cy_convertContent CypressConverter D U c lang))
     + skippedActions (stats_out (cy_convertContent CypressConverter D U c lang))
     \<le> totalActions (stats_out (cy_convertContent CypressConverter D U c lang)) \<and>
   convertedActions (stats_out (pw_convertContent self D c lang))
     + skippedActions (stats_out (pw_convertContent self D c lang))
     \<le> totalActions (stats_out (pw_convertContent self D c lang))"
  using cy_run_statsOk[of D U lang "traceLines c"] pw_run_statsOk[of self D lang "traceLines c"]
  by (simp add: cy_convertContent_def pw_convertContent_def statsOk_def Let_def)

text \<open>
  C3, as the code has it. At any point of a conversion, a \<^verbatim>\<open>step.ok\<close> event whose kind
  is on the auto-handled list adds one to the count of its kind in both converters. The
  Cypress converter leaves \<^verbatim>\<open>totalActions\<close> as it is; the Playwright converter has no
  such list and adds one to \<^verbatim>\<open>totalActions\<close> for this event as for every other.
\<close>

theorem autoHandled_counting:
  fixes D U lang ls
  defines "cst \<equiv> foldl (cy_onLine CypressConverter D U lang) cy_init ls"
    and "pst \<equiv> foldl (pw_onLine PlaywrightConverter D lang) pw_init ls"
  assumes k: "k \<in> set autoHandledActions"
    and line: "D line = Some event"
    and evt: "getProp event ''evt'' = Inr (JStr ''step.ok'')"
    and kind: "getProp event ''kind'' = Inr (JStr k)"
  shows "totalActions (stats (cy_onLine CypressConverter D U lang cst line)) = totalActions (stats cst) \<and>
         actionBreakdown (stats (cy_onLine CypressConverter D U lang cst line)) k
           = Some (Count (countOf (actionBreakdown (stats cst)) k + 1)) \<and>
         totalActions (stats (pw_onLine PlaywrightConverter D lang pst line)) = totalActions (stats pst) + 1 \<and>
         actionBreakdown (stats (pw_onLine PlaywrightConverter D lang pst line)) k
           = Some (Count (countOf (actionBreakdown (stats pst)) k + 1))"
proof -
  have auto: "has autoHandledActions (JStr k)" using k by (simp add: has_def)
  have nocy: "\<not> has (supportedActions CypressConverter) (JStr k)"
    using auto supported_not_autoHandled by blast
  have nopw: "\<not> has (supportedActions PlaywrightConverter) (JStr k)"
    using k by (auto simp: has_def PlaywrightConverter_def autoHandledActions_def)
  have cb: "bumpCount (actionBreakdown (stats cst)) k k
              = Some (Count (countOf (actionBreakdown (stats cst)) k + 1))"
    using cy_run_statsOk[of D U lang ls] inheritedText_autoHandled[OF k]
    by (intro bumpCount_plain) (simp_all add: statsOk_def cst_def)
  have pb: "bumpCount (actionBreakdown (stats pst)) k k
              = Some (Count (countOf (actionBreakdown (stats pst)) k + 1))"
    using pw_run_statsOk[of PlaywrightConverter D lang ls] inheritedText_autoHandled[OF k]
    by (intro bumpCount_plain) (simp_all add: statsOk_def pst_def)
  have cy: "totalActions (stats (cy_onLine CypressConverter D U lang cst line)) = totalActions (stats cst) \<and>
         actionBreakdown (stats (cy_onLine CypressConverter D U lang cst line)) k
           = Some (Count (countOf (actionBreakdown (stats cst)) k + 1))"
    using line evt kind auto nocy cb
    by (simp add: cy_onLine_def cy_onEvent_def bindE_def Let_def)
  have pw: "totalActions (stats (pw_onLine PlaywrightConverter D lang pst line)) = totalActions (stats pst) + 1 \<and>
         actionBreakdown (stats (pw_onLine PlaywrightConverter D lang pst line)) k
           = Some (Count (countOf (actionBreakdown (stats pst)) k + 1))"
    using line evt kind nopw pb
    by (simp add: pw_onLine_def pw_onEvent_def bindE_def Let_def split: sum.splits)
  show ?thesis using cy pw by blast
qed

theorem autoHandled_counting_witness:
  \<open>''findElement'' \<in> set autoHandledActions \<and>
   exampleJSON ''{"evt":"step.ok","kind":"findElement"}'' = Some (stepOk ''findElement'' []) \<and>
   getProp (stepOk ''findElement'' []) ''evt'' = Inr (JStr ''step.ok'') \<and>
   getProp (stepOk ''findElement'' []) ''kind'' = Inr (JStr ''findElement'') \<and>
   totalActions (stats (cy_onLine CypressConverter exampleJSON exampleURL ''javascript''
       (foldl (cy_onLine CypressConverter exampleJSON exampleURL ''javascript'') cy_init
          [''{"evt":"step.ok","kind":"findElement"}''])
       ''{"evt":"step.ok","kind":"findElement"}''))
     = totalActions (stats (foldl (cy_onLine CypressConverter exampleJSON exampleURL ''javascript'') cy_init
          [''{"evt":"step.ok","kind":"findElement"}''])) \<and>
   actionBreakdown (stats (cy_onLine CypressConverter exampleJSON exampleURL ''javascript''
       (foldl (cy_onLine CypressConverter exampleJSON exampleURL ''javascript'') cy_init
          [''{"evt":"step.ok","kind":"findElement"}''])
       ''{"evt":"step.ok","kind":"findElement"}'')) ''findElement''
     = Some (Count (countOf (actionBreakdown (stats
          (foldl (cy_onLine CypressConverter exampleJSON exampleURL ''javascript'') cy_init
             [''{"evt":"step.ok","kind":"findElement"}'']))) ''findElement'' + 1))\<close>
proof -
  have h1: "''findElement'' \<in> set autoHandledActions" by (simp add: autoHandledActions_def)
  have h2: \<open>exampleJSON ''{"evt":"step.ok","kind":"findElement"}'' = Some (stepOk ''findElement'' [])\<close>
    by (simp add: exampleJSON_def)
  have h3: "getProp (stepOk ''findElement'' []) ''evt'' = Inr (JStr ''step.ok'')"
    by (simp add: stepOk_def ownProp_def)
  have h4: "getProp (stepOk ''findElement'' []) ''kind'' = Inr (JStr ''findElement'')"
    by (simp add: stepOk_def ownProp_def)
  from autoHandled_counting[where D=exampleJSON and U=exampleURL and lang="''javascript''"
      and k="''findElement''" and event="stepOk ''findElement'' []"
      and line=\<open>''{"evt":"step.ok","kind":"findElement"}''\<close>
      and ls=\<open>[''{"evt":"step.ok","kind":"findElement"}'']\<close>, OF h1 h2 h3 h4] h1 h2 h3 h4
  show ?thesis by blast
qed

lemmas run_defs = cy_onLine_def pw_onLine_def cy_onEvent_def pw_onEvent_def bindE_def Let_def
  stepOk_def ownProp_def has_def autoHandledActions_def CypressConverter_def PlaywrightConverter_def
  cy_init_def pw_init_def emptyStats_def unsupportedStep_def mkStep_def
  cy_generateComment_def pw_generateComment_def bumpCount_def inheritedText_def
  objectPrototypeMethods_def

text \<open>
  The claim C3 as stated fails for the Playwright converter: \<^verbatim>\<open>findElement\<close> is on the
  list, and the event takes \<^verbatim>\<open>totalActions\<close> from 0 to 1.
\<close>

theorem autoHandled_counting_counterexample:
  "''findElement'' \<in> set autoHandledActions \<and>
   totalActions (stats pw_init) = 0 \<and>
   totalActions (stats (pw_onEvent PlaywrightConverter ''javascript'' pw_init (stepOk ''findElement'' []))) = 1"
  by (simp add: run_defs)

text \<open>
  C9. The counts of \<^verbatim>\<open>actionBreakdown\<close> are meant to be non-negative integers. For a
  kind that is the name of a member of \<^verbatim>\<open>Object.prototype\<close> the dictionary lookup finds
  that member, and the stored value is a text: the one-line trace
  \<^verbatim>\<open>{"evt":"step.ok","kind":"toString"}\<close> leaves
  \<^verbatim>\<open>function toString() { [native code] }1\<close> as the count of \<^verbatim>\<open>toString\<close>, in both
  converters.
\<close>

theorem actionBreakdown_inherited_name:
  \<open>actionBreakdown (stats_out (cy_convertContent CypressConverter exampleJSON exampleURL
       ''{"evt":"step.ok","kind":"toString"}'' ''javascript'')) ''toString''
     = Some (Text ''function toString() { [native code] }1'') \<and>
   actionBreakdown (stats_out (pw_convertContent PlaywrightConverter exampleJSON
       ''{"evt":"step.ok","kind":"toString"}'' ''javascript'')) ''toString''
     = Some (Text ''function toString() { [native code] }1'')\<close>
proof -
  have l: \<open>traceLines ''{"evt":"step.ok","kind":"toString"}'' = [''{"evt":"step.ok","kind":"toString"}'']\<close>
    by (simp add: traceLines_def trim_def isWhiteSpace_def isLineTerminator_def)
  have d: \<open>exampleJSON ''{"evt":"step.ok","kind":"toString"}'' = Some (stepOk ''toString'' [])\<close>
    by (simp add: exampleJSON_def)
  have cy: "actionBreakdown (stats (cy_onEvent CypressConverter exampleURL ''javascript'' cy_init
              (stepOk ''toString'' []))) ''toString'' = Some (Text ''function toString() { [native code] }1'')"
    by (simp add: run_defs)
  have pw: "actionBreakdown (stats (pw_onEvent PlaywrightConverter ''javascript'' pw_init
              (stepOk ''toString'' []))) ''toString'' = Some (Text ''function toString() { [native code] }1'')"
    by (simp add: run_defs)
  have cyl: \<open>foldl (cy_onLine CypressConverter exampleJSON exampleURL ''javascript'') cy_init
              (traceLines ''{"evt":"step.ok","kind":"toString"}'')
            = cy_onEvent CypressConverter exampleURL ''javascript'' cy_init (stepOk ''toString'' [])\<close>
    unfolding l by (simp add: cy_onLine_def d)
  have pwl: \<open>foldl (pw_onLine PlaywrightConverter exampleJSON ''javascript'') pw_init
              (traceLines ''{"evt":"step.ok","kind":"toString"}'')
            = pw_onEvent PlaywrightConverter ''javascript'' pw_init (stepOk ''toString'' [])\<close>
    unfolding l by (simp add: pw_onLine_def d)
  show ?thesis
    unfolding cy_convertContent_def pw_convertContent_def cyl pwl Let_def
    using cy pw by (simp only: conversion.simps simp_thms)
qed

section \<open>Back navigation across origins\<close>

lemmas step_defs = cy_convertStep_def cy_extractOrigin_def cy_back_def cy_click_def
  cy_guessInputValue_def guessInputValue_def toString.simps escapeQuotes_def

lemma cross_origin_trace:
  assumes "U ''https://a.test/x'' = Some (''https:'', ''a.test'')"
    and "U ''https://b.test/y'' = Some (''https:'', ''b.test'')"
  shows \<open>map action (steps (foldl (cy_onEvent CypressConverter U lang) cy_init
            [stepOk ''get'' [(''target'', JStr ''https://a.test/x'')],
             stepOk ''get'' [(''target'', JStr ''https://b.test/y'')],
             stepOk ''Navigation.back'' []]))
         = [''cy.visit("https://a.test/x")'', ''cy.visit("https://b.test/y")'',
            ''// cy.go('back') - Skipped due to cross-origin navigation'']\<close>
  using assms by (simp add: run_defs step_defs extract_defs rx_defs stripBrackets_def)

lemma same_origin_trace:
  assumes "U ''https://a.test/x'' = Some (''https:'', ''a.test'')"
    and "U ''https://a.test/z'' = Some (''https:'', ''a.test'')"
  shows \<open>map action (steps (foldl (cy_onEvent CypressConverter U lang) cy_init
            [stepOk ''get'' [(''target'', JStr ''https://a.test/x'')],
             stepOk ''get'' [(''target'', JStr ''https://a.test/z'')],
             stepOk ''Navigation.back'' []]))
         = [''cy.visit("https://a.test/x")'', ''cy.visit("https://a.test/z")'', ''cy.go('back')'']\<close>
  using assms by (simp add: run_defs step_defs extract_defs rx_defs stripBrackets_def)
lemma cy_onEvent_originInv:
  "originInv st \<Longrightarrow> originInv (cy_onEvent self U lang st ev)"
  by (auto simp: cy_onEvent_def Let_def originInv_def
           split: sum.splits option.splits prod.splits)

lemma cy_run_originInv:
  "originInv (foldl (cy_onLine self D U lang) cy_init ls)"
proof (induction ls rule: rev_induct)
  case Nil
  show ?case by (simp add: originInv_def cy_init_def)
next
  case (snoc l ls)
  then show ?case by (simp add: cy_onLine_def cy_onEvent_originInv split: option.splits)
qed

text \<open>
  C1, as the code has it. With \<^verbatim>\<open>new URL\<close> giving the origins of the three addresses, the
  trace get a.test/x, get b.test/y, back ends in the commented-out go-back, and the trace
  get a.test/x, get a.test/z, back ends in \<^verbatim>\<open>cy.go('back')\<close>. For a
  \<^verbatim>\<open>Navigation.back\<close> event the guard fires exactly when the history has at least two
  entries and the second-to-last origin is a recorded origin (not \<^verbatim>\<open>null\<close>) that differs
  from the current origin; during a conversion the current origin is the last entry of
  the history.
\<close>

theorem back_navigation_guard:
  assumes "U ''https://a.test/x'' = Some (''https:'', ''a.test'')"
    and "U ''https://b.test/y'' = Some (''https:'', ''b.test'')"
    and "U ''https://a.test/z'' = Some (''https:'', ''a.test'')"
  shows
   \<open>map action (steps (foldl (cy_onEvent CypressConverter U lang) cy_init
        [stepOk ''get'' [(''target'', JStr ''https://a.test/x'')],
         stepOk ''get'' [(''target'', JStr ''https://b.test/y'')],
         stepOk ''Navigation.back'' []]))
      = [''cy.visit("https://a.test/x")'', ''cy.visit("https://b.test/y")'',
         ''// cy.go('back') - Skipped due to cross-origin navigation''] \<and>
    map action (steps (foldl (cy_onEvent CypressConverter U lang) cy_init
        [stepOk ''get'' [(''target'', JStr ''https://a.test/x'')],
         stepOk ''get'' [(''target'', JStr ''https://a.test/z'')],
         stepOk ''Navigation.back'' []]))
      = [''cy.visit("https://a.test/x")'', ''cy.visit("https://a.test/z")'', ''cy.go('back')''] \<and>
    (getProp ev ''kind'' = Inr (JStr ''Navigation.back'') \<longrightarrow> getProp ev ''target'' = Inr tg \<longrightarrow>
     cy_extractCleanSelector tg = Inr s \<longrightarrow>
       cy_convertStep V ev lang cur hist =
         Inr (if 2 \<le> length hist \<and>
                 (\<exists>prev. hist ! (length hist - 2) = Some prev \<and> prev \<noteq> [] \<and> Some prev \<noteq> cur)
              then mkStep ''// cy.go('back') - Skipped due to cross-origin navigation''
                          ''Navigate back (skipped - cross-origin)''
              else mkStep ''cy.go('back')'' ''Navigate back'')) \<and>
    currentOrigin (foldl (cy_onLine CypressConverter D V lang) cy_init ls)
      = (if navigationHistory (foldl (cy_onLine CypressConverter D V lang) cy_init ls) = [] then None
         else last (navigationHistory (foldl (cy_onLine CypressConverter D V lang) cy_init ls)))\<close>
proof -
  have guard: "cy_back cur hist =
         (if 2 \<le> length hist \<and>
                 (\<exists>prev. hist ! (length hist - 2) = Some prev \<and> prev \<noteq> [] \<and> Some prev \<noteq> cur)
              then mkStep ''// cy.go('back') - Skipped due to cross-origin navigation''
                          ''Navigate back (skipped - cross-origin)''
              else mkStep ''cy.go('back')'' ''Navigate back'')"
    by (cases "hist ! (length hist - 2)") (auto simp: cy_back_def)
  have general: "cy_convertStep V ev lang cur hist = Inr (cy_back cur hist)"
    if "getProp ev ''kind'' = Inr (JStr ''Navigation.back'')" "getProp ev ''target'' = Inr tg"
       "cy_extractCleanSelector tg = Inr s"
    using cy_convertStep_selector(6)[OF that, of V lang cur hist] by simp
  have inv: "currentOrigin (foldl (cy_onLine CypressConverter D V lang) cy_init ls)
      = (if navigationHistory (foldl (cy_onLine CypressConverter D V lang) cy_init ls) = [] then None
         else last (navigationHistory (foldl (cy_onLine CypressConverter D V lang) cy_init ls)))"
    using cy_run_originInv[of CypressConverter D V lang ls] by (simp only: originInv_def)
  show ?thesis
    apply (intro conjI impI)
       apply (rule cross_origin_trace[OF assms(1,2)])
      apply (rule same_origin_trace[OF assms(1,3)])
     apply (simp only: general guard)
    apply (rule inv)
    done
qed

theorem back_navigation_guard_witness:
  \<open>exampleURL ''https://a.test/x'' = Some (''https:'', ''a.test'') \<and>
   exampleURL ''https://b.test/y'' = Some (''https:'', ''b.test'') \<and>
   exampleURL ''https://a.test/z'' = Some (''https:'', ''a.test'') \<and>
   map action (steps (foldl (cy_onEvent CypressConverter exampleURL ''javascript'') cy_init
        [stepOk ''get'' [(''target'', JStr ''https://a.test/x'')],
         stepOk ''get'' [(''target'', JStr ''https://b.test/y'')],
         stepOk ''Navigation.back'' []]))
      = [''cy.visit("https://a.test/x")'', ''cy.visit("https://b.test/y")'',
         ''// cy.go('back') - Skipped due to cross-origin navigation''] \<and>
   map action (steps (foldl (cy_onEvent CypressConverter exampleURL ''javascript'') cy_init
        [stepOk ''get'' [(''target'', JStr ''https://a.test/x'')],
         stepOk ''get'' [(''target'', JStr ''https://a.test/z'')],
         stepOk ''Navigation.back'' []]))
      = [''cy.visit("https://a.test/x")'', ''cy.visit("https://a.test/z")'', ''cy.go('back')''] \<and>
   getProp (stepOk ''Navigation.back'' []) ''kind'' = Inr (JStr ''Navigation.back'') \<and>
   getProp (stepOk ''Navigation.back'' []) ''target'' = Inr JUndefined \<and>
   cy_extractCleanSelector JUndefined = Inr [] \<and>
   cy_convertStep exampleURL (stepOk ''Navigation.back'' []) ''javascript''
       (Some ''https://b.test'') [Some ''https://a.test'', Some ''https://b.test'']
     = Inr (mkStep ''// cy.go('back') - Skipped due to cross-origin navigation''
                   ''Navigate back (skipped - cross-origin)'')\<close>
proof -
  have u1: "exampleURL ''https://a.test/x'' = Some (''https:'', ''a.test'')"
    by (simp add: exampleURL_def)
  have u2: "exampleURL ''https://b.test/y'' = Some (''https:'', ''b.test'')"
    by (simp add: exampleURL_def)
  have u3: "exampleURL ''https://a.test/z'' = Some (''https:'', ''a.test'')"
    by (simp add: exampleURL_def)
  have h1: "getProp (stepOk ''Navigation.back'' []) ''kind'' = Inr (JStr ''Navigation.back'')"
    by (simp add: stepOk_def ownProp_def)
  have h2: "getProp (stepOk ''Navigation.back'' []) ''target'' = Inr JUndefined"
    by (simp add: stepOk_def ownProp_def)
  have h3: "cy_extractCleanSelector JUndefined = Inr []"
    by (simp add: extract_defs)
  note t = back_navigation_guard[OF u1 u2 u3, where lang="''javascript''"
      and ev="stepOk ''Navigation.back'' []" and tg=JUndefined and s="[]" and V=exampleURL
      and cur="Some ''https://b.test''" and hist="[Some ''https://a.test'', Some ''https://b.test'']"]
  have g: \<open>cy_convertStep exampleURL (stepOk ''Navigation.back'' []) ''javascript''
       (Some ''https://b.test'') [Some ''https://a.test'', Some ''https://b.test'']
     = Inr (mkStep ''// cy.go('back') - Skipped due to cross-origin navigation''
                   ''Navigate back (skipped - cross-origin)'')\<close>
    using t[THEN conjunct2, THEN conjunct2, THEN conjunct1, rule_format, OF h1 h2 h3]
    by simp
  show ?thesis
    by (intro conjI u1 u2 u3 h1 h2 h3 g t[THEN conjunct1] t[THEN conjunct2, THEN conjunct1])
qed

lemma null_origin_state:
  \<open>navigationHistory (foldl (cy_onEvent CypressConverter exampleURL ''javascript'') cy_init
        [stepOk ''get'' [(''target'', JStr ''not-a-url'')],
         stepOk ''get'' [(''target'', JStr ''https://b.test/y'')]])
     = [None, Some ''https://b.test'']\<close>
  \<open>currentOrigin (foldl (cy_onEvent CypressConverter exampleURL ''javascript'') cy_init
        [stepOk ''get'' [(''target'', JStr ''not-a-url'')],
         stepOk ''get'' [(''target'', JStr ''https://b.test/y'')]])
     = Some ''https://b.test''\<close>
  \<open>map action (steps (foldl (cy_onEvent CypressConverter exampleURL ''javascript'') cy_init
        [stepOk ''get'' [(''target'', JStr ''not-a-url'')],
         stepOk ''get'' [(''target'', JStr ''https://b.test/y'')],
         stepOk ''Navigation.back'' []]))
     = [''cy.visit("not-a-url")'', ''cy.visit("https://b.test/y")'', ''cy.go('back')'']\<close>
  by (simp_all add: run_defs step_defs extract_defs rx_defs stripBrackets_def exampleURL_def)

text \<open>
  The claim C1 as stated fails where the second-to-last entry is \<^verbatim>\<open>null\<close>: after a
  \<^verbatim>\<open>get\<close> of an address that \<^verbatim>\<open>new URL\<close> rejects and a \<^verbatim>\<open>get\<close> of b.test/y, the
  history has two entries and the second-to-last differs from the current origin, yet
  the step for \<^verbatim>\<open>Navigation.back\<close> is the real \<^verbatim>\<open>cy.go('back')\<close>.
\<close>

theorem back_navigation_guard_counterexample:
  \<open>navigationHistory (foldl (cy_onEvent CypressConverter exampleURL ''javascript'') cy_init
        [stepOk ''get'' [(''target'', JStr ''not-a-url'')],
         stepOk ''get'' [(''target'', JStr ''https://b.test/y'')]])
     = [None, Some ''https://b.test''] \<and>
   currentOrigin (foldl (cy_onEvent CypressConverter exampleURL ''javascript'') cy_init
        [stepOk ''get'' [(''target'', JStr ''not-a-url'')],
         stepOk ''get'' [(''target'', JStr ''https://b.test/y'')]])
     = Some ''https://b.test'' \<and>
   2 \<le> length [None, Some ''https://b.test''] \<and>
   [None, Some ''https://b.test''] ! (length [None, Some ''https://b.test''] - 2) \<noteq> Some ''https://b.test'' \<and>
   map action (steps (foldl (cy_onEvent CypressConverter exampleURL ''javascript'') cy_init
        [stepOk ''get'' [(''target'', JStr ''not-a-url'')],
         stepOk ''get'' [(''target'', JStr ''https://b.test/y'')],
         stepOk ''Navigation.back'' []]))
     = [''cy.visit("not-a-url")'', ''cy.visit("https://b.test/y")'', ''cy.go('back')'']\<close>
  by (intro conjI null_origin_state) simp_all

section \<open>Lines that do not decode\<close>

text \<open>
  C5. A line that does not decode leaves the whole state of either converter as it was
  (statistics and steps), and the conversion goes on: a trace with such a line, or with
  a blank line, converts to what the trace without that line converts to.
\<close>

theorem undecodable_line_skipped:
  assumes bad: "D line = None \<or> trim line = []"
    and nl: "\<forall>x\<in>set (pre @ line # post). CHR 0x0A \<notin> set x"
  shows "(D line = None \<longrightarrow>
            cy_onLine cself D U lang cst line = cst \<and> pw_onLine pself D lang pst line = pst) \<and>
         cy_convertContent cself D U (join ''\<newline>'' (pre @ line # post)) lang
           = cy_convertContent cself D U (join ''\<newline>'' (pre @ post)) lang \<and>
         pw_convertContent pself D (join ''\<newline>'' (pre @ line # post)) lang
           = pw_convertContent pself D (join ''\<newline>'' (pre @ post)) lang"
proof -
  have one: "cy_onLine cself D U lang cst line = cst \<and> pw_onLine pself D lang pst line = pst"
    if "D line = None" for cst pst
    using that by (simp add: cy_onLine_def pw_onLine_def)
  have with_line: "traceLines (join ''\<newline>'' (pre @ line # post))
          = filter (\<lambda>l. trim l \<noteq> []) pre @ filter (\<lambda>l. trim l \<noteq> []) [line] @ filter (\<lambda>l. trim l \<noteq> []) post"
    using nl by (simp add: traceLines_join)
  have without: "traceLines (join ''\<newline>'' (pre @ post))
          = filter (\<lambda>l. trim l \<noteq> []) pre @ filter (\<lambda>l. trim l \<noteq> []) post"
    using nl by (simp add: traceLines_join)
  have cy: "foldl (cy_onLine cself D U lang) cy_init (traceLines (join ''\<newline>'' (pre @ line # post)))
          = foldl (cy_onLine cself D U lang) cy_init (traceLines (join ''\<newline>'' (pre @ post)))"
    unfolding with_line without using bad one by (cases "trim line = []") auto
  have pw: "foldl (pw_onLine pself D lang) pw_init (traceLines (join ''\<newline>'' (pre @ line # post)))
          = foldl (pw_onLine pself D lang) pw_init (traceLines (join ''\<newline>'' (pre @ post)))"
    unfolding with_line without using bad one by (cases "trim line = []") auto
  show ?thesis
    using one cy pw by (simp add: cy_convertContent_def pw_convertContent_def)
qed

theorem undecodable_line_skipped_witness:
  \<open>exampleJSON ''{not json'' = None \<and>
   list_all (\<lambda>x. CHR 0x0A \<notin> set x)
     ([''{"evt":"step.ok","kind":"get","target":"https://a.test/x"}''] @ ''{not json'' #
      [''{"evt":"step.ok","kind":"findElement"}'']) \<and>
   cy_onLine CypressConverter exampleJSON exampleURL ''javascript'' cy_init ''{not json'' = cy_init \<and>
   pw_onLine PlaywrightConverter exampleJSON ''javascript'' pw_init ''{not json'' = pw_init \<and>
   cy_convertContent CypressConverter exampleJSON exampleURL
       (join ''\<newline>'' ([''{"evt":"step.ok","kind":"get","target":"https://a.test/x"}''] @ ''{not json'' #
          [''{"evt":"step.ok","kind":"findElement"}''])) ''javascript''
     = cy_convertContent CypressConverter exampleJSON exampleURL
       (join ''\<newline>'' ([''{"evt":"step.ok","kind":"get","target":"https://a.test/x"}''] @
          [''{"evt":"step.ok","kind":"findElement"}''])) ''javascript'' \<and>
   pw_convertContent PlaywrightConverter exampleJSON
       (join ''\<newline>'' ([''{"evt":"step.ok","kind":"get","target":"https://a.test/x"}''] @ ''{not json'' #
          [''{"evt":"step.ok","kind":"findElement"}''])) ''javascript''
     = pw_convertContent PlaywrightConverter exampleJSON
       (join ''\<newline>'' ([''{"evt":"step.ok","kind":"get","target":"https://a.test/x"}''] @
          [''{"evt":"step.ok","kind":"findElement"}''])) ''javascript''\<close>
proof -
  have h1: \<open>exampleJSON ''{not json'' = None\<close> by (simp add: exampleJSON_def)
  have h2: \<open>\<forall>x\<in>set ([''{"evt":"step.ok","kind":"get","target":"https://a.test/x"}''] @ ''{not json'' #
      [''{"evt":"step.ok","kind":"findElement"}'']). CHR 0x0A \<notin> set x\<close>
    by simp
  have h2': \<open>list_all (\<lambda>x. CHR 0x0A \<notin> set x)
     ([''{"evt":"step.ok","kind":"get","target":"https://a.test/x"}''] @ ''{not json'' #
      [''{"evt":"step.ok","kind":"findElement"}''])\<close>
    using h2 by (simp only: list_all_iff)
  from undecodable_line_skipped[where D=exampleJSON and line="''{not json''"
      and pre=\<open>[''{"evt":"step.ok","kind":"get","target":"https://a.test/x"}'']\<close>
      and post=\<open>[''{"evt":"step.ok","kind":"findElement"}'']\<close>
      and cself=CypressConverter and U=exampleURL
      and lang="''javascript''" and cst=cy_init and pself=PlaywrightConverter and pst=pw_init,
      OF disjI1[OF h1] h2] h1 h2'
  show ?thesis by blast
qed

section \<open>Languages a converter does not support\<close>

lemma cy_onEvent_language:
  "cy_onEvent self U lang st ev = cy_onEvent self U lang' st ev"
  unfolding cy_onEvent_def cy_convertStep_def unsupportedStep_def cy_generateComment_def
  by (rule refl)

lemma cy_onLine_language: "cy_onLine self D U lang = cy_onLine self D U lang'"
  unfolding cy_onLine_def cy_onEvent_language[of self U lang _ _ lang'] by (rule refl)

lemma pw_generators_language:
  assumes "lang \<noteq> ''python''"
  shows "pw_generatePageAction a s lang v = pw_generatePageAction a s ''javascript'' v"
    and "pw_generateSelectOption s opt lang = pw_generateSelectOption s opt ''javascript''"
    and "pw_generateExpectation a s lang = pw_generateExpectation a s ''javascript''"
    and "pw_generateComment t lang = pw_generateComment t ''javascript''"
  using assms
  by (simp_all add: pw_generatePageAction_def pw_generateSelectOption_def
      pw_generateExpectation_def pw_generateComment_def Let_def split: sum.splits)

lemma pw_convertStep_language:
  assumes "lang \<noteq> ''python''"
  shows "pw_convertStep ev lang = pw_convertStep ev ''javascript''"
  unfolding pw_convertStep_def pw_click_def
    pw_generators_language(1)[OF assms] pw_generators_language(2)[OF assms]
    pw_generators_language(3)[OF assms] pw_generators_language(4)[OF assms]
  by (rule refl)

lemma pw_unsupportedStep_language:
  assumes "lang \<noteq> ''python''"
  shows "unsupportedStep pw_generateComment ev act lang
           = unsupportedStep pw_generateComment ev act ''javascript''"
  unfolding unsupportedStep_def pw_generators_language(4)[OF assms]
  by (rule refl)

lemma pw_onEvent_language:
  assumes "lang \<noteq> ''python''"
  shows "pw_onEvent self lang st ev = pw_onEvent self ''javascript'' st ev"
  unfolding pw_onEvent_def pw_convertStep_language[OF assms] pw_unsupportedStep_language[OF assms]
  by (rule refl)

lemma pw_onLine_language:
  assumes "lang \<noteq> ''python''"
  shows "pw_onLine self D lang = pw_onLine self D ''javascript''"
  unfolding pw_onLine_def pw_onEvent_language[OF assms] by (rule refl)

text \<open>
  C6. A language that a converter does not know gives its JavaScript output: for the
  Cypress converter every language but \<^verbatim>\<open>typescript\<close> (so \<^verbatim>\<open>python\<close> too) gives the
  result of \<^verbatim>\<open>javascript\<close>, with the JavaScript document and
  \<^verbatim>\<open>migrated-selenium.cy.js\<close>; for the Playwright converter every language but
  \<^verbatim>\<open>typescript\<close> and \<^verbatim>\<open>python\<close> gives the result of \<^verbatim>\<open>javascript\<close>, with
  \<^verbatim>\<open>migrated-selenium.spec.js\<close>. A readable trace is converted, the call does not fail.
\<close>

theorem unsupported_language_falls_back:
  "(lang \<noteq> ''typescript'' \<longrightarrow>
      cy_convertContent self D U c lang = cy_convertContent self D U c ''javascript'' \<and>
      content (cy_convertContent self D U c lang)
        = cy_generateJavaScriptTest (steps (foldl (cy_onLine self D U lang) cy_init (traceLines c))) \<and>
      filename (cy_convertContent self D U c lang) = ''migrated-selenium.cy.js'' \<and>
      (snd w p = Some c \<longrightarrow>
         fst (cy_convert D U w p lang) = Inr (cy_convertContent (fst w) D U c ''javascript''))) \<and>
   (lang \<noteq> ''typescript'' \<and> lang \<noteq> ''python'' \<longrightarrow>
      pw_convertContent self D c lang = pw_convertContent self D c ''javascript'' \<and>
      content (pw_convertContent self D c lang)
        = pw_generateJavaScriptTest (steps (foldl (pw_onLine self D lang) pw_init (traceLines c))) \<and>
      filename (pw_convertContent self D c lang) = ''migrated-selenium.spec.js'' \<and>
      (snd w p = Some c \<longrightarrow>
         fst (pw_convert D w p lang) = Inr (pw_convertContent (fst w) D c ''javascript'')))"
proof -
  have cy: "cy_convertContent s D U c lang = cy_convertContent s D U c ''javascript''"
    if "lang \<noteq> ''typescript''" for s
    using that cy_onLine_language[of s D U lang "''javascript''"]
    by (simp add: cy_convertContent_def cy_generateTestFile_def cy_getFilename_def)
  have pw: "pw_convertContent s D c lang = pw_convertContent s D c ''javascript''"
    if "lang \<noteq> ''typescript''" "lang \<noteq> ''python''" for s
    using that pw_onLine_language[of lang s D]
    by (simp add: pw_convertContent_def pw_generateTestFile_def pw_getFilename_def)
  show ?thesis
    using cy pw
    by (simp add: cy_convert_def pw_convert_def)
       (simp add: cy_convertContent_def pw_convertContent_def cy_generateTestFile_def
          cy_getFilename_def pw_generateTestFile_def pw_getFilename_def Let_def)
qed

theorem unsupported_language_falls_back_witness:
  \<open>''python'' \<noteq> ''typescript'' \<and> ''ruby'' \<noteq> ''typescript'' \<and> ''ruby'' \<noteq> ''python'' \<and>
   snd (CypressConverter, [''trace.ndjson'' \<mapsto> ''{"evt":"step.ok","kind":"findElement"}''])
       ''trace.ndjson'' = Some ''{"evt":"step.ok","kind":"findElement"}'' \<and>
   filename (cy_convertContent CypressConverter exampleJSON exampleURL
       ''{"evt":"step.ok","kind":"findElement"}'' ''python'') = ''migrated-selenium.cy.js'' \<and>
   content (cy_convertContent CypressConverter exampleJSON exampleURL
       ''{"evt":"step.ok","kind":"findElement"}'' ''python'')
     = cy_generateJavaScriptTest (steps (foldl (cy_onLine CypressConverter exampleJSON exampleURL ''python'')
         cy_init (traceLines ''{"evt":"step.ok","kind":"findElement"}''))) \<and>
   fst (cy_convert exampleJSON exampleURL
       (CypressConverter, [''trace.ndjson'' \<mapsto> ''{"evt":"step.ok","kind":"findElement"}''])
       ''trace.ndjson'' ''python'')
     = Inr (cy_convertContent CypressConverter exampleJSON exampleURL
         ''{"evt":"step.ok","kind":"findElement"}'' ''javascript'') \<and>
   filename (pw_convertContent PlaywrightConverter exampleJSON
       ''{"evt":"step.ok","kind":"findElement"}'' ''ruby'') = ''migrated-selenium.spec.js'' \<and>
   pw_convertContent PlaywrightConverter exampleJSON ''{"evt":"step.ok","kind":"findElement"}'' ''ruby''
     = pw_convertContent PlaywrightConverter exampleJSON ''{"evt":"step.ok","kind":"findElement"}''
         ''javascript''\<close>
proof -
  have h1: "''python'' \<noteq> ''typescript''" by simp
  have h2: "''ruby'' \<noteq> ''typescript'' \<and> ''ruby'' \<noteq> ''python''" by simp
  have h3: \<open>snd (CypressConverter, [''trace.ndjson'' \<mapsto> ''{"evt":"step.ok","kind":"findElement"}''])
       ''trace.ndjson'' = Some ''{"evt":"step.ok","kind":"findElement"}''\<close>
    by simp
  note cy = unsupported_language_falls_back[where lang="''python''" and self=CypressConverter
      and D=exampleJSON and U=exampleURL and c=\<open>''{"evt":"step.ok","kind":"findElement"}''\<close>
      and w=\<open>(CypressConverter, [''trace.ndjson'' \<mapsto> ''{"evt":"step.ok","kind":"findElement"}''])\<close>
      and p="''trace.ndjson''", THEN conjunct1, rule_format, OF h1]
  note pw = unsupported_language_falls_back[where lang="''ruby''" and self=PlaywrightConverter
      and D=exampleJSON and c=\<open>''{"evt":"step.ok","kind":"findElement"}''\<close>,
      THEN conjunct2, rule_format, OF h2]
  have c4: \<open>fst (cy_convert exampleJSON exampleURL
       (CypressConverter, [''trace.ndjson'' \<mapsto> ''{"evt":"step.ok","kind":"findElement"}''])
       ''trace.ndjson'' ''python'')
     = Inr (cy_convertContent CypressConverter exampleJSON exampleURL
         ''{"evt":"step.ok","kind":"findElement"}'' ''javascript'')\<close>
    using cy[THEN conjunct2, THEN conjunct2, THEN conjunct2, rule_format, OF h3]
    by (simp only: fst_conv)
  show ?thesis
    by (intro conjI h1 h2[THEN conjunct1] h2[THEN conjunct2] h3 c4
          cy[THEN conjunct2, THEN conjunct2, THEN conjunct1]
          cy[THEN conjunct2, THEN conjunct1]
          pw[THEN conjunct2, THEN conjunct2, THEN conjunct1] pw[THEN conjunct1])
qed

end
